theory Spec2Isabelle
  imports Complex_Main
begin

section \<open>Python values of the vehicle ontology population tool\<close>

text \<open>
  The script \<^verbatim>\<open>population.py\<close> reads a CSV file with pandas, creates individuals in an
  owlready2 ontology and sets their properties. The model below follows the script
  function by function. The libraries (pandas, owlready2, the file system, the HermiT
  reasoner) are outside the repository: what they return and whether a call into them
  raises is given by an environment record, and every call into them is written into a
  trace of events.

  A character of the model stands for one character of a Python string (Isabelle's
  \<open>char\<close> has 256 values, so code points above 255 are outside the model).
\<close>

datatype py_error =
  TypeError | ValueError | OverflowError | AttributeError | IndexError | OSError | LibraryError

text \<open>\<^verbatim>\<open>sys.exit(1)\<close> raises \<^verbatim>\<open>SystemExit\<close>, which \<^verbatim>\<open>except Exception\<close> does not catch.\<close>

datatype exc = SystemExit nat | Exception py_error

text \<open>
  A cell of the data frame as pandas parsed it: a missing value, a string, a finite
  number (of an int64, float64 or bool column) or an infinity (\<open>CInf True\<close> is
  \<^verbatim>\<open>inf\<close>, \<open>CInf False\<close> is \<^verbatim>\<open>-inf\<close>).
\<close>

datatype cell = CNaN | CStr string | CNum real | CInf bool

text \<open>A value assigned to a property of an individual; \<open>VEnt n\<close> is the ontology entity named \<open>n\<close>.\<close>

datatype pyval = VNone | VStr string | VInt int | VNum cell | VBool bool | VEnt string

subsection \<open>Characters and strings\<close>

definition is_digit :: "char \<Rightarrow> bool" where
  "is_digit c = (48 \<le> (of_char c :: nat) \<and> (of_char c :: nat) \<le> 57)"

definition is_alpha :: "char \<Rightarrow> bool" where
  "is_alpha c = ((65 \<le> (of_char c :: nat) \<and> (of_char c :: nat) \<le> 90) \<or>
                 (97 \<le> (of_char c :: nat) \<and> (of_char c :: nat) \<le> 122))"

definition is_alnum :: "char \<Rightarrow> bool" where
  "is_alnum c = (is_alpha c \<or> is_digit c)"

text \<open>\<^verbatim>\<open>str.isspace\<close> on the characters below 256.\<close>

definition is_space :: "char \<Rightarrow> bool" where
  "is_space c = (let n = (of_char c :: nat) in
     (9 \<le> n \<and> n \<le> 13) \<or> (28 \<le> n \<and> n \<le> 32) \<or> n = 133 \<or> n = 160)"

definition strip :: "string \<Rightarrow> string" where
  "strip s = rev (dropWhile is_space (rev (dropWhile is_space s)))"

text \<open>\<^verbatim>\<open>s.replace(a, b)\<close> for one-character \<open>a\<close> and \<open>b\<close>, and \<^verbatim>\<open>s.replace(a, "")\<close>.\<close>

definition replace_char :: "char \<Rightarrow> char \<Rightarrow> string \<Rightarrow> string" where
  "replace_char a b s = map (\<lambda>c. if c = a then b else c) s"

definition remove_char :: "char \<Rightarrow> string \<Rightarrow> string" where
  "remove_char a s = filter (\<lambda>c. c \<noteq> a) s"

text \<open>\<^verbatim>\<open>str.lower\<close> on the characters below 256: A-Z and the Latin-1 capitals.\<close>

definition lower_char :: "char \<Rightarrow> char" where
  "lower_char c = (let n = (of_char c :: nat) in
     if (65 \<le> n \<and> n \<le> 90) \<or> (192 \<le> n \<and> n \<le> 222 \<and> n \<noteq> 215) then char_of (n + 32) else c)"

definition lower :: "string \<Rightarrow> string" where
  "lower s = map lower_char s"

text \<open>\<^verbatim>\<open>a in s\<close> for strings: \<open>a\<close> occurs in \<open>s\<close> as a contiguous substring.\<close>

fun starts_with :: "string \<Rightarrow> string \<Rightarrow> bool" where
  "starts_with [] s = True"
| "starts_with (a # as) [] = False"
| "starts_with (a # as) (c # cs) = (a = c \<and> starts_with as cs)"

fun contains :: "string \<Rightarrow> string \<Rightarrow> bool" where
  "contains a [] = (a = [])"
| "contains a (c # cs) = (starts_with a (c # cs) \<or> contains a cs)"

text \<open>A text between single quotes, as the messages of the log show it.\<close>

definition quoted :: "string \<Rightarrow> string" where
  "quoted s = [CHR 0x27] @ s @ [CHR 0x27]"

subsection \<open>Integers and their decimal form\<close>

definition digit_char :: "nat \<Rightarrow> char" where
  "digit_char d =
     (if d = 0 then CHR ''0'' else if d = 1 then CHR ''1'' else if d = 2 then CHR ''2''
      else if d = 3 then CHR ''3'' else if d = 4 then CHR ''4'' else if d = 5 then CHR ''5''
      else if d = 6 then CHR ''6'' else if d = 7 then CHR ''7'' else if d = 8 then CHR ''8''
      else CHR ''9'')"

fun str_nat :: "nat \<Rightarrow> string" where
  "str_nat n = (if n < 10 then [digit_char n] else str_nat (n div 10) @ [digit_char (n mod 10)])"

definition str_int :: "int \<Rightarrow> string" where
  "str_int i = (if i < 0 then ''-'' @ str_nat (nat (- i)) else str_nat (nat i))"

text \<open>The format \<^verbatim>\<open>f"{n:05d}"\<close>: zeros between the sign and the digits up to five characters.\<close>

definition fmt_05d :: "int \<Rightarrow> string" where
  "fmt_05d i =
     (if i < 0 then ''-'' @ replicate (4 - length (str_nat (nat (- i)))) (CHR ''0'') @ str_nat (nat (- i))
      else replicate (5 - length (str_nat (nat i))) (CHR ''0'') @ str_nat (nat i))"

text \<open>
  \<^verbatim>\<open>int(s)\<close> on a string: white space around it is dropped, then an optional sign, then
  decimal digits, where single underscores may stand between two digits.
\<close>

fun int_digits :: "nat \<Rightarrow> string \<Rightarrow> nat option" where
  "int_digits acc [] = Some acc"
| "int_digits acc (c # cs) =
     (if is_digit c then int_digits (10 * acc + ((of_char c :: nat) - 48)) cs
      else if c = CHR ''_'' \<and> cs \<noteq> [] \<and> is_digit (hd cs) then int_digits acc cs
      else None)"

definition int_literal :: "string \<Rightarrow> nat option" where
  "int_literal s = (case s of [] \<Rightarrow> None | c # cs \<Rightarrow> if is_digit c then int_digits 0 s else None)"

definition int_of_str :: "string \<Rightarrow> py_error + int" where
  "int_of_str s =
     (case strip s of
        [] \<Rightarrow> Inl ValueError
      | c # cs \<Rightarrow>
          (if c = CHR ''-'' then (case int_literal cs of None \<Rightarrow> Inl ValueError | Some n \<Rightarrow> Inr (- int n))
           else if c = CHR ''+'' then (case int_literal cs of None \<Rightarrow> Inl ValueError | Some n \<Rightarrow> Inr (int n))
           else (case int_literal (c # cs) of None \<Rightarrow> Inl ValueError | Some n \<Rightarrow> Inr (int n))))"

subsection \<open>Operations of Python on a cell\<close>

text \<open>\<^verbatim>\<open>pd.isna(c)\<close>.\<close>

definition isna :: "cell \<Rightarrow> bool" where
  "isna c = (c = CNaN)"

text \<open>The truth value of a cell in \<^verbatim>\<open>if c\<close>: NaN and the infinities are true, zero and the empty string are false.\<close>

fun truthy :: "cell \<Rightarrow> bool" where
  "truthy CNaN = True"
| "truthy (CStr s) = (s \<noteq> [])"
| "truthy (CNum x) = (x \<noteq> 0)"
| "truthy (CInf b) = True"

text \<open>\<^verbatim>\<open>int(c)\<close>: a number is truncated towards zero.\<close>

fun py_int :: "cell \<Rightarrow> py_error + int" where
  "py_int CNaN = Inl ValueError"
| "py_int (CStr s) = int_of_str s"
| "py_int (CNum x) = Inr (if 0 \<le> x then \<lfloor>x\<rfloor> else \<lceil>x\<rceil>)"
| "py_int (CInf b) = Inl OverflowError"

text \<open>\<^verbatim>\<open>c < k\<close> for an integer constant \<open>k\<close>.\<close>

fun py_less :: "cell \<Rightarrow> int \<Rightarrow> py_error + bool" where
  "py_less CNaN k = Inr False"
| "py_less (CStr s) k = Inl TypeError"
| "py_less (CNum x) k = Inr (x < of_int k)"
| "py_less (CInf b) k = Inr (\<not> b)"

section \<open>The environment and the trace of events\<close>

text \<open>The calls the script makes into pandas, owlready2, the file system and the reasoner.\<close>

datatype effect =
    LoadOntology string
  | ReadCsv string "string option"
  | MakeDirs string
  | OpenWrite string
  | WriteLines string
  | NewIndividual string string
  | SetAttr string string pyval
  | SaveOntology string
  | RunReasoner
  | QueryIndividuals
  | QueryInstances string

text \<open>
  A line of the log: \<open>Info m\<close> is \<^verbatim>\<open>log(m)\<close>, \<open>Err m e\<close> is \<^verbatim>\<open>log(f"{m}: {e}")\<close> for
  the exception \<open>e\<close> (the time stamp and the text of the exception are left out).
\<close>

datatype log_entry = Info string | Err string py_error

datatype event = Did effect | Failed effect py_error | Log log_entry

text \<open>The data frame \<^verbatim>\<open>pd.read_csv\<close> returns: the column names and the rows, each a list of
  cells in the order of the columns. The index of a row is its position.\<close>

record dataframe =
  columns :: "string list"
  rows :: "cell list list"

text \<open>
  The environment of a run:
  \<^item> \<open>raises h e\<close>: whether the call \<open>e\<close> into a library raises, after the events \<open>h\<close>;
  \<^item> \<open>ontology_entities\<close>: the names the loaded ontology file defines;
  \<^item> \<open>csv_data sep\<close>: the frame \<^verbatim>\<open>pd.read_csv\<close> returns with the separator \<open>sep\<close>;
  \<^item> \<open>dir_exists\<close>: \<^verbatim>\<open>os.path.exists\<close>;
  \<^item> \<open>sample_idx k n\<close>: the positions \<^verbatim>\<open>data.sample(k)\<close> draws from a frame of \<open>n\<close> rows;
  \<^item> \<open>str_num\<close>: \<^verbatim>\<open>str\<close> of a number; \<open>decimal_float\<close>: \<^verbatim>\<open>float(Decimal(s))\<close>, \<open>None\<close>
    where it raises \<^verbatim>\<open>InvalidOperation\<close>, \<^verbatim>\<open>ValueError\<close> or \<^verbatim>\<open>TypeError\<close>;
  \<^item> \<open>total_individuals\<close>, \<open>instances_count\<close>: the counts the ontology reports after reasoning.
\<close>

record env =
  raises :: "event list \<Rightarrow> effect \<Rightarrow> py_error option"
  ontology_entities :: "string list"
  csv_data :: "string option \<Rightarrow> dataframe"
  dir_exists :: "string \<Rightarrow> bool"
  sample_idx :: "nat \<Rightarrow> nat \<Rightarrow> nat list"
  str_num :: "real \<Rightarrow> string"
  decimal_float :: "string \<Rightarrow> cell option"
  total_individuals :: nat
  instances_count :: "string \<Rightarrow> nat"

text \<open>The state of a run: the names the ontology resolves, and the events so far.\<close>

record world =
  entities :: "string list"
  trace :: "event list"

text \<open>\<^verbatim>\<open>str(c)\<close>.\<close>

fun py_str :: "env \<Rightarrow> cell \<Rightarrow> string" where
  "py_str E CNaN = ''nan''"
| "py_str E (CStr s) = s"
| "py_str E (CNum x) = str_num E x"
| "py_str E (CInf b) = (if b then ''inf'' else ''-inf'')"

section \<open>Constants of the script\<close>

definition ONTOLOGY_FILENAME :: string where "ONTOLOGY_FILENAME = ''vehicle_ontology.rdf''"
definition OUTPUT_FILENAME :: string where "OUTPUT_FILENAME = ''vehicle_ontology_populated.rdf''"
definition DATA_FILENAME :: string where "DATA_FILENAME = ''data.csv''"
definition ARTIFACTS_DIR :: string where "ARTIFACTS_DIR = ''artifacts''"

definition MAX_VEHICLES :: nat where "MAX_VEHICLES = 1000"
definition BATCH_SIZE :: nat where "BATCH_SIZE = 100"

definition PREMIUM_THRESHOLD :: int where "PREMIUM_THRESHOLD = - 10000"
definition STANDARD_THRESHOLD :: int where "STANDARD_THRESHOLD = - 1000"

section \<open>The pure functions of the script\<close>

text \<open>\<^verbatim>\<open>re.sub(r"[^a-zA-Z0-9]", "_", s)\<close>.\<close>

definition re_sub_special :: "string \<Rightarrow> string" where
  "re_sub_special s = map (\<lambda>c. if is_alnum c then c else CHR ''_'') s"

text \<open>
  \<^verbatim>\<open>create_valid_id(text)\<close>. After the substitution only ASCII letters, digits and
  underscores are left, so \<^verbatim>\<open>isalpha\<close> is the test for an ASCII letter. \<^verbatim>\<open>valid_id[0]\<close>
  raises \<^verbatim>\<open>IndexError\<close> on the empty string.
\<close>

definition create_valid_id :: "env \<Rightarrow> cell \<Rightarrow> py_error + string" where
  "create_valid_id E text =
     (if \<not> truthy text then Inr ''Unknown''
      else (let valid_id = re_sub_special (py_str E text) in
            case valid_id of
              [] \<Rightarrow> Inl IndexError
            | c # cs \<Rightarrow> if \<not> is_alpha c then Inr (''V_'' @ valid_id) else Inr valid_id))"

text \<open>\<^verbatim>\<open>get_market_segment(savings)\<close>; a string compared with a number raises \<^verbatim>\<open>TypeError\<close>.\<close>

definition get_market_segment :: "cell \<Rightarrow> py_error + string" where
  "get_market_segment savings =
     (if isna savings then Inr ''StandardMarket''
      else (case py_less savings PREMIUM_THRESHOLD of
              Inl e \<Rightarrow> Inl e
            | Inr True \<Rightarrow> Inr ''PremiumMarket''
            | Inr False \<Rightarrow>
                (case py_less savings STANDARD_THRESHOLD of
                   Inl e \<Rightarrow> Inl e
                 | Inr True \<Rightarrow> Inr ''StandardMarket''
                 | Inr False \<Rightarrow> Inr ''EconomyMarket'')))"

section \<open>Programs: state, exceptions and events\<close>

text \<open>
  A statement of the script is a function from the state of the run to a result and the
  state after it. The result is \<open>Inl\<close> of the exception that left the statement, or
  \<open>Inr\<close> of its value. The state after a raise is kept: what was done before the
  raise stays done.
\<close>

type_synonym 'a prog = "world \<Rightarrow> (exc + 'a) \<times> world"

definition ret :: "'a \<Rightarrow> 'a prog" where
  "ret x = (\<lambda>w. (Inr x, w))"

definition bnd :: "'a prog \<Rightarrow> ('a \<Rightarrow> 'b prog) \<Rightarrow> 'b prog" where
  "bnd m f = (\<lambda>w. case m w of (Inl e, w') \<Rightarrow> (Inl e, w') | (Inr x, w') \<Rightarrow> f x w')"

definition thn :: "'a prog \<Rightarrow> 'b prog \<Rightarrow> 'b prog" where
  "thn m n = bnd m (\<lambda>x. n)"

definition raise_exc :: "py_error \<Rightarrow> 'a prog" where
  "raise_exc e = (\<lambda>w. (Inl (Exception e), w))"

definition sys_exit :: "nat \<Rightarrow> 'a prog" where
  "sys_exit n = (\<lambda>w. (Inl (SystemExit n), w))"

text \<open>The value of an expression that may raise.\<close>

definition lift :: "py_error + 'a \<Rightarrow> 'a prog" where
  "lift r = (case r of Inl e \<Rightarrow> raise_exc e | Inr x \<Rightarrow> ret x)"

text \<open>\<^verbatim>\<open>try: m  except Exception as e: h(e)\<close>.\<close>

definition try_except :: "'a prog \<Rightarrow> (py_error \<Rightarrow> 'a prog) \<Rightarrow> 'a prog" where
  "try_except m h = (\<lambda>w. case m w of (Inl (Exception e), w') \<Rightarrow> h e w' | r \<Rightarrow> r)"

definition emit :: "event \<Rightarrow> unit prog" where
  "emit ev = (\<lambda>w. (Inr (), w\<lparr>trace := trace w @ [ev]\<rparr>))"

text \<open>\<^verbatim>\<open>log(message)\<close>.\<close>

definition logm :: "log_entry \<Rightarrow> unit prog" where
  "logm l = emit (Log l)"

text \<open>A call into a library: the environment says whether it raises; the trace keeps it.\<close>

definition call :: "env \<Rightarrow> effect \<Rightarrow> unit prog" where
  "call E eff = (\<lambda>w. case raises E (trace w) eff of
       None \<Rightarrow> (Inr (), w\<lparr>trace := trace w @ [Did eff]\<rparr>)
     | Some e \<Rightarrow> (Inl (Exception e), w\<lparr>trace := trace w @ [Failed eff e]\<rparr>))"

definition whenever :: "bool \<Rightarrow> unit prog \<Rightarrow> unit prog" where
  "whenever b m = (if b then m else ret ())"

text \<open>A \<^verbatim>\<open>for\<close> loop, without and with local variables that the body updates.\<close>

fun for_each :: "'a list \<Rightarrow> ('a \<Rightarrow> unit prog) \<Rightarrow> unit prog" where
  "for_each [] f = ret ()"
| "for_each (x # xs) f = thn (f x) (for_each xs f)"

fun fold_prog :: "('a \<Rightarrow> 's \<Rightarrow> 's prog) \<Rightarrow> 'a list \<Rightarrow> 's \<Rightarrow> 's prog" where
  "fold_prog f [] s = ret s"
| "fold_prog f (x # xs) s = bnd (f x s) (fold_prog f xs)"

text \<open>A sequence of statements.\<close>

fun run_steps :: "unit prog list \<Rightarrow> unit prog" where
  "run_steps [] = ret ()"
| "run_steps (m # ms) = thn m (run_steps ms)"

subsection \<open>The ontology\<close>

text \<open>
  \<^verbatim>\<open>getattr(onto, n)\<close> is the entity named \<open>n\<close>, or \<^verbatim>\<open>None\<close> when the ontology has none.
  \<^verbatim>\<open>onto.C(n)\<close> calls the class \<open>C\<close>: calling \<^verbatim>\<open>None\<close> raises \<^verbatim>\<open>TypeError\<close>; otherwise the
  library makes (or finds) the individual named \<open>n\<close>, which the ontology resolves from then on.
\<close>

definition onto_getattr :: "world \<Rightarrow> string \<Rightarrow> pyval" where
  "onto_getattr w n = (if n \<in> set (entities w) then VEnt n else VNone)"

definition getattr_onto :: "string \<Rightarrow> pyval prog" where
  "getattr_onto n = (\<lambda>w. (Inr (onto_getattr w n), w))"

definition add_entity :: "string \<Rightarrow> unit prog" where
  "add_entity n = (\<lambda>w. (Inr (), w\<lparr>entities := entities w @ [n]\<rparr>))"

definition new_individual :: "env \<Rightarrow> string \<Rightarrow> string \<Rightarrow> pyval prog" where
  "new_individual E cls name =
     bnd (getattr_onto cls) (\<lambda>c.
       case c of
         VEnt k \<Rightarrow> thn (call E (NewIndividual cls name)) (thn (add_entity name) (ret (VEnt name)))
       | _ \<Rightarrow> raise_exc TypeError)"

text \<open>\<^verbatim>\<open>individual.prop = v\<close>.\<close>

definition setattr :: "env \<Rightarrow> string \<Rightarrow> string \<Rightarrow> pyval \<Rightarrow> unit prog" where
  "setattr E ind prop v = call E (SetAttr ind prop v)"

subsection \<open>Dictionaries keyed by cells\<close>

type_synonym 'v dict = "(cell \<times> 'v) list"

definition dict_has :: "'v dict \<Rightarrow> cell \<Rightarrow> bool" where
  "dict_has d k = (map_of d k \<noteq> None)"

fun dict_set :: "'v dict \<Rightarrow> cell \<Rightarrow> 'v \<Rightarrow> 'v dict" where
  "dict_set [] k v = [(k, v)]"
| "dict_set ((k', v') # d) k v = (if k' = k then (k', v) # d else (k', v') # dict_set d k v)"

subsection \<open>Data frames\<close>

type_synonym row = "string \<Rightarrow> cell option"

text \<open>The row \<^verbatim>\<open>iterrows\<close> yields: the cells by column name.\<close>

definition row_of :: "string list \<Rightarrow> cell list \<Rightarrow> row" where
  "row_of cols cells = map_of (zip cols cells)"

text \<open>\<^verbatim>\<open>"k" in row and not pd.isna(row["k"])\<close>, and \<^verbatim>\<open>row["k"]\<close> where that holds.\<close>

definition notna :: "row \<Rightarrow> string \<Rightarrow> bool" where
  "notna r k = (case r k of None \<Rightarrow> False | Some c \<Rightarrow> \<not> isna c)"

definition cellv :: "row \<Rightarrow> string \<Rightarrow> cell" where
  "cellv r k = (case r k of None \<Rightarrow> CNaN | Some c \<Rightarrow> c)"

text \<open>\<^verbatim>\<open>data[column].dropna().unique()\<close>: the values that are not missing, each once, in the
  order of their first occurrence.\<close>

definition column_values :: "dataframe \<Rightarrow> string \<Rightarrow> cell list" where
  "column_values d column = map (\<lambda>cells. cellv (row_of (columns d) cells) column) (rows d)"

definition dropna_unique :: "cell list \<Rightarrow> cell list" where
  "dropna_unique vs = rev (remdups (rev (filter (\<lambda>c. \<not> isna c) vs)))"

section \<open>The mapping tables of the script\<close>

definition FUEL_TYPE_MAP :: "(string \<times> string) list" where
  "FUEL_TYPE_MAP =
    [(''CNG'', ''CNG''),
     (''Diesel'', ''Diesel''),
     (''Electricity'', ''Electricity''),
     (''Gasoline or E85'', ''E85''),
     (''Premium'', ''Premium''),
     (''Regular'', ''Regular''),
     (''Midgrade'', ''Midgrade''),
     (''Premium Gas or Electricity'', ''Premium''),
     (''Premium and Electricity'', ''Premium''),
     (''Regular Gas and Electricity'', ''Regular''),
     (''Regular Gas or Electricity'', ''Regular'')]"

definition DRIVE_TYPE_MAP :: "(string \<times> string) list" where
  "DRIVE_TYPE_MAP =
    [(''Front-Wheel Drive'', ''FrontWheelDrive''),
     (''Rear-Wheel Drive'', ''RearWheelDrive''),
     (''All-Wheel Drive'', ''AllWheelDrive''),
     (''4-Wheel Drive'', ''FourWheelDrive''),
     (''4-Wheel or All-Wheel Drive'', ''FourWheelDrive''),
     (''Part-time 4-Wheel Drive'', ''FourWheelDrive''),
     (''2-Wheel Drive'', ''FrontWheelDrive'')]"

definition SIZE_CLASS_MAP :: "(string \<times> string) list" where
  "SIZE_CLASS_MAP =
    [(''Compact Cars'', ''CompactSize''),
     (''Subcompact Cars'', ''SubcompactSize''),
     (''Midsize Cars'', ''MidsizeSize''),
     (''Large Cars'', ''LargeSize''),
     (''Minicompact Cars'', ''MinicompactSize''),
     (''Small Pickup Trucks'', ''PickupSize''),
     (''Sport Utility Vehicle - 4WD'', ''SUVSize''),
     (''Sport Utility Vehicle - 2WD'', ''SUVSize''),
     (''Small Sport Utility Vehicle 4WD'', ''SUVSize''),
     (''Small Sport Utility Vehicle 2WD'', ''SUVSize''),
     (''Standard Sport Utility Vehicle 4WD'', ''SUVSize''),
     (''Standard Sport Utility Vehicle 2WD'', ''SUVSize''),
     (''Vans, Passenger Type'', ''VanSize'')]"

definition BODY_STYLE_MAP :: "(string \<times> string) list" where
  "BODY_STYLE_MAP =
    [(''Compact Cars'', ''Sedan''),
     (''Subcompact Cars'', ''Sedan''),
     (''Midsize Cars'', ''Sedan''),
     (''Large Cars'', ''Sedan''),
     (''Minicompact Cars'', ''Coupe''),
     (''Two Seaters'', ''Coupe''),
     (''Small Station Wagons'', ''Wagon''),
     (''Midsize Station Wagons'', ''Wagon''),
     (''Sport Utility Vehicle - 4WD'', ''SUV''),
     (''Sport Utility Vehicle - 2WD'', ''SUV''),
     (''Small Sport Utility Vehicle 4WD'', ''SUV''),
     (''Small Sport Utility Vehicle 2WD'', ''SUV''),
     (''Standard Sport Utility Vehicle 4WD'', ''SUV''),
     (''Standard Sport Utility Vehicle 2WD'', ''SUV''),
     (''Small Pickup Trucks'', ''Truck''),
     (''Small Pickup Trucks 2WD'', ''Truck''),
     (''Small Pickup Trucks 4WD'', ''Truck''),
     (''Standard Pickup Trucks'', ''Truck''),
     (''Standard Pickup Trucks 2WD'', ''Truck''),
     (''Standard Pickup Trucks 4WD'', ''Truck''),
     (''Standard Pickup Trucks/2wd'', ''Truck''),
     (''Vans'', ''Van''),
     (''Vans Passenger'', ''Van''),
     (''Vans, Cargo Type'', ''Van''),
     (''Vans, Passenger Type'', ''Van''),
     (''Minivan - 2WD'', ''Van''),
     (''Minivan - 4WD'', ''Van'')]"

definition BOOST_SYSTEM_MAP :: "(string \<times> string) list" where
  "BOOST_SYSTEM_MAP = [(''T'', ''Turbocharger''), (''S'', ''Supercharger'')]"

definition ELECTRIC_FUEL_TYPES :: "string list" where
  "ELECTRIC_FUEL_TYPES =
    [''Electricity'',
     ''Premium Gas or Electricity'',
     ''Premium and Electricity'',
     ''Regular Gas and Electricity'',
     ''Regular Gas or Electricity'']"

text \<open>The keys of \<^verbatim>\<open>vehicle_categories\<close>, in the order of the dictionary.\<close>

definition vehicle_categories :: "string list" where
  "vehicle_categories =
    [''PropulsionVehicle'', ''BodyStyleVehicle'', ''DriveTypeVehicle'',
     ''ConventionalFuelVehicle'', ''AlternativeFuelVehicle'', ''ElectrifiedVehicle'',
     ''DieselVehicle'', ''GasolineVehicle'', ''RegularGasolineVehicle'',
     ''PremiumGasolineVehicle'', ''HybridElectricVehicle'', ''PureElectricVehicle'',
     ''PassengerVehicle'', ''UtilityVehicle'', ''SedanVehicle'', ''CoupeVehicle'',
     ''WagonVehicle'', ''HatchbackVehicle'', ''SUVVehicle'', ''TruckVehicle'', ''VanVehicle'',
     ''FrontWheelDriveVehicle'', ''RearWheelDriveVehicle'', ''AllWheelDriveVehicle'',
     ''FourWheelDriveVehicle'',
     ''CompactDiesel'', ''MidsizeDiesel'', ''LargeDiesel'',
     ''CompactRegular'', ''MidsizeRegular'', ''LargeRegular'',
     ''CompactHybrid'', ''MidsizeHybrid'', ''LargeHybrid'',
     ''CompactElectric'', ''MidsizeElectric'', ''LargeElectric'']"

section \<open>Loading the ontology and the data, and the artifacts\<close>

text \<open>The first \<^verbatim>\<open>try\<close> of \<^verbatim>\<open>populate_ontology\<close>: a failure to load the ontology exits with code 1.\<close>

definition load_ontology :: "env \<Rightarrow> unit prog" where
  "load_ontology E =
     thn (logm (Info ''Loading ontology...''))
       (try_except
          (thn (call E (LoadOntology ONTOLOGY_FILENAME))
          (thn (\<lambda>w. (Inr (), w\<lparr>entities := ontology_entities E\<rparr>))
               (logm (Info (''Ontology '' @ quoted ONTOLOGY_FILENAME @ '' loaded successfully'')))))
          (\<lambda>e. thn (logm (Err ''ERROR loading ontology'' e))
               (thn (logm (Info (''Ontology must be present as '' @ quoted ONTOLOGY_FILENAME)))
                    (sys_exit 1))))"

definition ensure_dir :: "env \<Rightarrow> string \<Rightarrow> unit prog" where
  "ensure_dir E directory =
     (if \<not> dir_exists E directory
      then thn (call E (MakeDirs directory)) (logm (Info (''Created directory: '' @ directory)))
      else ret ())"

definition read_csv :: "env \<Rightarrow> string option \<Rightarrow> dataframe prog" where
  "read_csv E sep = thn (call E (ReadCsv DATA_FILENAME sep)) (ret (csv_data E sep))"

text \<open>The second \<^verbatim>\<open>try\<close>: the default delimiter, then \<^verbatim>\<open>;\<close>, then exit with code 1.\<close>

definition load_data :: "env \<Rightarrow> dataframe prog" where
  "load_data E =
     thn (logm (Info (''Loading '' @ DATA_FILENAME @ ''...'')))
       (try_except
          (bnd (read_csv E None) (\<lambda>data.
             thn (logm (Info (''Data loaded successfully with '' @ str_nat (length (rows data)) @
                    '' rows and '' @ str_nat (length (columns data)) @ '' columns'')))
                 (ret data)))
          (\<lambda>e. thn (logm (Err (''Error loading '' @ DATA_FILENAME @ '' with default delimiter'') e))
             (try_except
                (bnd (read_csv E (Some '';'')) (\<lambda>data.
                   thn (logm (Info (''Data loaded successfully with delimiter '' @ quoted '';'' @ '' - '' @
                          str_nat (length (rows data)) @ '' rows and '' @
                          str_nat (length (columns data)) @ '' columns'')))
                       (ret data)))
                (\<lambda>e. thn (logm (Err (''Error loading '' @ DATA_FILENAME @ '' with alternate delimiter'') e))
                     (sys_exit 1)))))"

text \<open>\<^verbatim>\<open>sorted(values)\<close> raises \<^verbatim>\<open>TypeError\<close> when it has to compare a string with a number.\<close>

definition is_str :: "cell \<Rightarrow> bool" where
  "is_str c = (case c of CStr s \<Rightarrow> True | _ \<Rightarrow> False)"

definition py_sorted :: "cell list \<Rightarrow> py_error + unit" where
  "py_sorted vs = (if list_ex is_str vs \<and> list_ex (\<lambda>c. \<not> is_str c) vs then Inl TypeError else Inr ())"

text \<open>\<^verbatim>\<open>save_unique_values\<close>: the file is opened, the values are sorted and written (the
  content of the file is not modelled).\<close>

definition save_unique_values :: "env \<Rightarrow> cell list \<Rightarrow> string \<Rightarrow> unit prog" where
  "save_unique_values E vals filename =
     thn (call E (OpenWrite filename))
    (thn (lift (py_sorted vals))
    (thn (call E (WriteLines filename))
         (logm (Info (''Saved '' @ str_nat (length vals) @ '' unique values to '' @ filename)))))"

text \<open>\<^verbatim>\<open>os.path.join(ARTIFACTS_DIR, f"{filename}_values.txt")\<close> with
  \<^verbatim>\<open>filename = column.lower().replace(" ", "_").replace("/", "_")\<close>.\<close>

definition values_path :: "string \<Rightarrow> string" where
  "values_path column =
     ARTIFACTS_DIR @ ''/'' @
     replace_char (CHR ''/'') (CHR ''_'') (replace_char (CHR '' '') (CHR ''_'') (lower column)) @
     ''_values.txt''"

definition stats_path :: string where
  "stats_path = ARTIFACTS_DIR @ ''/'' @ ''column_statistics.csv''"

definition export_artifacts :: "env \<Rightarrow> dataframe \<Rightarrow> unit prog" where
  "export_artifacts E data =
     thn (logm (Info ''Extracting and saving unique values from each column...''))
    (thn (for_each (columns data) (\<lambda>column.
            save_unique_values E (dropna_unique (column_values data column)) (values_path column)))
    (thn (call E (OpenWrite stats_path))
    (thn (call E (WriteLines stats_path))
         (logm (Info (''Saved column statistics to '' @ stats_path))))))"

section \<open>The lookup maps\<close>

text \<open>\<^verbatim>\<open>for key, value in M.items(): m[key] = getattr(onto, value)\<close>.\<close>

definition convert_map :: "(string \<times> string) list \<Rightarrow> pyval dict prog" where
  "convert_map M = (\<lambda>w. (Inr (map (\<lambda>(key, v). (CStr key, onto_getattr w v)) M), w))"

text \<open>\<^verbatim>\<open>c.replace(...)\<close> is a method of strings: on a number it raises \<^verbatim>\<open>AttributeError\<close>.\<close>

definition fuel_id_of :: "cell \<Rightarrow> py_error + string" where
  "fuel_id_of c =
     (case c of
        CStr s \<Rightarrow> Inr (replace_char (CHR ''/'') (CHR ''_'') (replace_char (CHR ''-'') (CHR ''_'')
                       (replace_char (CHR '' '') (CHR ''_'') s)))
      | _ \<Rightarrow> Inl AttributeError)"

definition class_id_of :: "cell \<Rightarrow> py_error + string" where
  "class_id_of c =
     (case c of
        CStr s \<Rightarrow> Inr (replace_char (CHR ''/'') (CHR ''_'') (remove_char (CHR '','')
                       (replace_char (CHR ''-'') (CHR ''_'') (replace_char (CHR '' '') (CHR ''_'') s))))
      | _ \<Rightarrow> Inl AttributeError)"

definition drive_id_of :: "cell \<Rightarrow> py_error + string" where
  "drive_id_of c = fuel_id_of c"

text \<open>The body of the loop over the fuel types of the data set.\<close>

definition add_fuel_type :: "env \<Rightarrow> cell \<Rightarrow> pyval dict \<Rightarrow> pyval dict prog" where
  "add_fuel_type E fuel_type fuel_type_map =
     (if truthy fuel_type \<and> \<not> isna fuel_type \<and> \<not> dict_has fuel_type_map fuel_type then
        bnd (lift (fuel_id_of fuel_type)) (\<lambda>fuel_id.
          try_except
            (bnd (new_individual E ''FuelType'' fuel_id) (\<lambda>new_fuel_type.
               thn (logm (Info (''Added new FuelType: '' @ py_str E fuel_type @ '' -> '' @ fuel_id)))
                   (ret (dict_set fuel_type_map fuel_type new_fuel_type))))
            (\<lambda>e. thn (logm (Err (''Error adding fuel type '' @ fuel_id) e)) (ret fuel_type_map)))
      else ret fuel_type_map)"

definition add_size_class :: "env \<Rightarrow> cell \<Rightarrow> pyval dict \<Rightarrow> pyval dict prog" where
  "add_size_class E size_cls size_class_map =
     (if truthy size_cls \<and> \<not> isna size_cls \<and> \<not> dict_has size_class_map size_cls then
        bnd (lift (class_id_of size_cls)) (\<lambda>class_id.
          try_except
            (bnd (new_individual E ''VehicleSizeClass'' class_id) (\<lambda>new_size_cls.
               thn (logm (Info (''Added new VehicleSizeClass: '' @ py_str E size_cls @ '' -> '' @ class_id)))
                   (ret (dict_set size_class_map size_cls new_size_cls))))
            (\<lambda>e. thn (logm (Err (''Error adding size class '' @ class_id) e)) (ret size_class_map)))
      else ret size_class_map)"

definition add_drive_type :: "env \<Rightarrow> cell \<Rightarrow> pyval dict \<Rightarrow> pyval dict prog" where
  "add_drive_type E drive_type drive_type_map =
     (if truthy drive_type \<and> \<not> isna drive_type \<and> \<not> dict_has drive_type_map drive_type then
        bnd (lift (drive_id_of drive_type)) (\<lambda>drive_id.
          try_except
            (bnd (new_individual E ''DriveType'' drive_id) (\<lambda>new_drive_type.
               thn (logm (Info (''Added new DriveType: '' @ py_str E drive_type @ '' -> '' @ drive_id)))
                   (ret (dict_set drive_type_map drive_type new_drive_type))))
            (\<lambda>e. thn (logm (Err (''Error adding drive type '' @ drive_id) e)) (ret drive_type_map)))
      else ret drive_type_map)"

definition add_body_style :: "env \<Rightarrow> cell \<Rightarrow> pyval dict \<Rightarrow> pyval dict prog" where
  "add_body_style E size_cls body_style_map =
     (if truthy size_cls \<and> \<not> isna size_cls \<and> \<not> dict_has body_style_map size_cls then
        bnd (getattr_onto ''Sedan'') (\<lambda>sedan.
          thn (logm (Info (''Added default body style mapping for '' @ py_str E size_cls @ '' -> Sedan'')))
              (ret (dict_set body_style_map size_cls sedan)))
      else ret body_style_map)"

text \<open>The body of the loop that creates the Manufacturer individuals.\<close>

definition add_manufacturer :: "env \<Rightarrow> cell \<Rightarrow> pyval dict \<Rightarrow> pyval dict prog" where
  "add_manufacturer E make_v manufacturer_map =
     (if truthy make_v \<and> \<not> isna make_v then
        bnd (lift (create_valid_id E make_v)) (\<lambda>make_id.
        bnd (try_except
               (bnd (new_individual E ''Manufacturer'' make_id) (\<lambda>manufacturer.
                  ret (dict_set manufacturer_map make_v manufacturer)))
               (\<lambda>e. thn (logm (Err (''Error adding manufacturer '' @ make_id) e)) (ret manufacturer_map)))
            (\<lambda>m.
        thn (whenever (length m mod 20 = 0)
               (logm (Info (''Created '' @ str_nat (length m) @ '' manufacturers...''))))
            (ret m)))
      else ret manufacturer_map)"

text \<open>The body of the loop that creates the ModelYear individuals; \<^verbatim>\<open>int(year)\<close> stands
  before the \<^verbatim>\<open>try\<close>.\<close>

definition add_model_year :: "env \<Rightarrow> cell \<Rightarrow> pyval dict \<Rightarrow> pyval dict prog" where
  "add_model_year E year model_year_map =
     (if truthy year \<and> \<not> isna year then
        bnd (lift (py_int year)) (\<lambda>y.
          try_except
            (bnd (new_individual E ''ModelYear'' (''Year_'' @ str_int y)) (\<lambda>year_individual.
               ret (dict_set model_year_map year year_individual)))
            (\<lambda>e. thn (logm (Err (''Error adding model year '' @ (''Year_'' @ str_int y)) e))
                 (ret model_year_map)))
      else ret model_year_map)"

text \<open>\<^verbatim>\<open>if "k" in data.columns: for v in data["k"].dropna().unique(): ...\<close>.\<close>

definition over_column :: "dataframe \<Rightarrow> string \<Rightarrow> (cell \<Rightarrow> 's \<Rightarrow> 's prog) \<Rightarrow> 's \<Rightarrow> 's prog" where
  "over_column data column f s =
     (if column \<in> set (columns data)
      then fold_prog f (dropna_unique (column_values data column)) s
      else ret s)"

record maps =
  fuel_type_map :: "pyval dict"
  drive_type_map :: "pyval dict"
  size_class_map :: "pyval dict"
  body_style_map :: "pyval dict"
  boost_system_map :: "pyval dict"
  manufacturer_map :: "pyval dict"
  model_year_map :: "pyval dict"

text \<open>\<^verbatim>\<open>"Creating manufacturer individuals..."\<close> and \<^verbatim>\<open>"Creating model year individuals..."\<close>.\<close>

definition create_manufacturers :: "env \<Rightarrow> dataframe \<Rightarrow> pyval dict prog" where
  "create_manufacturers E data =
     thn (logm (Info ''Creating manufacturer individuals...''))
       (if ''Make'' \<in> set (columns data)
        then bnd (over_column data ''Make'' (add_manufacturer E) []) (\<lambda>m.
               thn (logm (Info (''Created all '' @ str_nat (length m) @ '' manufacturers''))) (ret m))
        else ret [])"

definition create_model_years :: "env \<Rightarrow> dataframe \<Rightarrow> pyval dict prog" where
  "create_model_years E data =
     thn (logm (Info ''Creating model year individuals...''))
       (if ''Year'' \<in> set (columns data)
        then bnd (over_column data ''Year'' (add_model_year E) []) (\<lambda>m.
               thn (logm (Info (''Created '' @ str_nat (length m) @ '' model years''))) (ret m))
        else ret [])"

text \<open>From \<^verbatim>\<open>"Setting up classification mappings..."\<close> to the model years.\<close>

definition setup_mappings :: "env \<Rightarrow> dataframe \<Rightarrow> maps prog" where
  "setup_mappings E data =
     thn (logm (Info ''Setting up classification mappings...''))
    (bnd (convert_map FUEL_TYPE_MAP) (\<lambda>fuel0.
     bnd (convert_map DRIVE_TYPE_MAP) (\<lambda>drive0.
     bnd (convert_map SIZE_CLASS_MAP) (\<lambda>size0.
     bnd (convert_map BODY_STYLE_MAP) (\<lambda>body0.
     bnd (convert_map BOOST_SYSTEM_MAP) (\<lambda>boost.
     bnd (over_column data ''Fuel Type'' (add_fuel_type E) fuel0) (\<lambda>fuel.
     bnd (over_column data ''Vehicle Size Class'' (add_size_class E) size0) (\<lambda>size.
     bnd (over_column data ''Drive'' (add_drive_type E) drive0) (\<lambda>drive.
     bnd (over_column data ''Vehicle Size Class'' (add_body_style E) body0) (\<lambda>body.
     bnd (create_manufacturers E data) (\<lambda>manufacturer.
     bnd (create_model_years E data) (\<lambda>model_year.
     ret \<lparr> fuel_type_map = fuel, drive_type_map = drive, size_class_map = size,
           body_style_map = body, boost_system_map = boost,
           manufacturer_map = manufacturer, model_year_map = model_year \<rparr>))))))))))))"

section \<open>The vehicles\<close>

text \<open>\<^verbatim>\<open>safe_numeric_conversion(value)\<close>.\<close>

definition safe_numeric_conversion :: "env \<Rightarrow> cell \<Rightarrow> cell option prog" where
  "safe_numeric_conversion E v =
     (if isna v then ret None
      else (case decimal_float E (py_str E v) of
              Some x \<Rightarrow> ret (Some x)
            | None \<Rightarrow>
                thn (logm (Info (''WARNING: Could not convert value '' @ quoted (py_str E v) @
                       '' to a numeric type'')))
                    (ret None)))"

text \<open>
  The identifier of the vehicle of the row with index \<open>i\<close>. It is computed before the
  \<^verbatim>\<open>try\<close> of the loop body: \<^verbatim>\<open>int(row_id)\<close> and \<^verbatim>\<open>int(row["Year"])\<close> may raise there.
\<close>

definition vehicle_id_of :: "env \<Rightarrow> nat \<Rightarrow> row \<Rightarrow> py_error + string" where
  "vehicle_id_of E i r =
     (let row_id = (if notna r ''ID'' then cellv r ''ID'' else CNum (of_nat i)) in
      case py_int row_id of
        Inl e \<Rightarrow> Inl e
      | Inr n \<Rightarrow>
          (let id_with_zeros = fmt_05d n;
               make_s = (if notna r ''Make'' then py_str E (cellv r ''Make'') else ''Unknown'');
               model_s = (if notna r ''Model'' then py_str E (cellv r ''Model'') else ''Unknown'')
           in case (if notna r ''Year''
                    then (case py_int (cellv r ''Year'') of Inl e \<Rightarrow> Inl e | Inr y \<Rightarrow> Inr (str_int y))
                    else Inr '''') of
                Inl e \<Rightarrow> Inl e
              | Inr year_s \<Rightarrow>
                  (case create_valid_id E (CStr (replace_char (CHR '' '') (CHR ''_'')
                          (make_s @ ''_'' @ model_s @ ''_'' @ year_s))) of
                     Inl e \<Rightarrow> Inl e
                   | Inr pre \<Rightarrow> Inr (pre @ ''_'' @ id_with_zeros))))"

text \<open>\<^verbatim>\<open>if "k" in row and not pd.isna(row["k"]): vehicle.p = str(row["k"])\<close>.\<close>

definition set_str :: "env \<Rightarrow> string \<Rightarrow> row \<Rightarrow> string \<Rightarrow> string \<Rightarrow> unit prog" where
  "set_str E v r column prop =
     whenever (notna r column) (setattr E v prop (VStr (py_str E (cellv r column))))"

text \<open>The same with \<^verbatim>\<open>safe_numeric_conversion\<close>: the property is set when the conversion gives a number.\<close>

definition set_numeric :: "env \<Rightarrow> string \<Rightarrow> row \<Rightarrow> string \<Rightarrow> string \<Rightarrow> unit prog" where
  "set_numeric E v r column prop =
     whenever (notna r column)
       (bnd (safe_numeric_conversion E (cellv r column)) (\<lambda>x.
          case x of None \<Rightarrow> ret () | Some y \<Rightarrow> setattr E v prop (VNum y)))"

text \<open>The value of the local variable \<^verbatim>\<open>has_electricity\<close> when it is assigned to the vehicle.\<close>

definition has_electricity :: "env \<Rightarrow> row \<Rightarrow> bool" where
  "has_electricity E r =
     ((notna r ''Fuel Type'' \<and>
        (py_str E (cellv r ''Fuel Type'') \<in> set ELECTRIC_FUEL_TYPES \<or>
         contains ''Electricity'' (py_str E (cellv r ''Fuel Type'')))) \<or>
      notna r ''Electric motor'')"

text \<open>\<^verbatim>\<open>if "k" in row and not pd.isna(row["k"]): if row["k"] in m: vehicle.p = m[row["k"]]\<close>.\<close>

definition set_mapped :: "env \<Rightarrow> string \<Rightarrow> row \<Rightarrow> string \<Rightarrow> pyval dict \<Rightarrow> string \<Rightarrow> unit prog" where
  "set_mapped E v r column m prop =
     whenever (notna r column)
       (case map_of m (cellv r column) of None \<Rightarrow> ret () | Some x \<Rightarrow> setattr E v prop x)"

definition set_body_style :: "env \<Rightarrow> string \<Rightarrow> row \<Rightarrow> pyval dict \<Rightarrow> unit prog" where
  "set_body_style E v r m =
     whenever (notna r ''Vehicle Size Class'')
       (case map_of m (cellv r ''Vehicle Size Class'') of
          Some x \<Rightarrow> setattr E v ''hasBodyStyle'' x
        | None \<Rightarrow> bnd (getattr_onto ''Sedan'') (setattr E v ''hasBodyStyle''))"

definition set_boost_system :: "env \<Rightarrow> string \<Rightarrow> row \<Rightarrow> unit prog" where
  "set_boost_system E v r =
     (if notna r ''T Charger'' \<and> cellv r ''T Charger'' = CStr ''T''
      then bnd (getattr_onto ''Turbocharger'') (setattr E v ''hasBoostSystem'')
      else if notna r ''S Charger'' \<and> cellv r ''S Charger'' = CStr ''S''
      then bnd (getattr_onto ''Supercharger'') (setattr E v ''hasBoostSystem'')
      else bnd (getattr_onto ''NaturallyAspirated'') (setattr E v ''hasBoostSystem''))"

definition set_market_segment :: "env \<Rightarrow> string \<Rightarrow> row \<Rightarrow> unit prog" where
  "set_market_segment E v r =
     (if notna r ''You Save/Spend''
      then bnd (lift (get_market_segment (cellv r ''You Save/Spend''))) (\<lambda>market_segment.
             bnd (getattr_onto market_segment) (setattr E v ''hasMarketSegment''))
      else bnd (getattr_onto ''StandardMarket'') (setattr E v ''hasMarketSegment''))"

text \<open>The statements of the \<^verbatim>\<open>try\<close> block after the vehicle is created, in their order.\<close>

definition vehicle_steps :: "env \<Rightarrow> maps \<Rightarrow> row \<Rightarrow> string \<Rightarrow> unit prog list" where
  "vehicle_steps E M r v =
    [set_str E v r ''Make'' ''make'',
     set_str E v r ''Model'' ''model'',
     whenever (notna r ''Year'')
       (bnd (lift (py_int (cellv r ''Year''))) (\<lambda>y. setattr E v ''year'' (VInt y))),
     set_numeric E v r ''Cylinders'' ''cylinders'',
     set_numeric E v r ''You Save/Spend'' ''savings'',
     set_str E v r ''Transmission'' ''transmission'',
     set_numeric E v r ''Co2 Fuel Type1'' ''co2Emissions'',
     set_str E v r ''Engine descriptor'' ''engineDescriptor'',
     set_numeric E v r ''EPA Fuel Economy Score'' ''epaFuelEconomyScore'',
     set_numeric E v r ''GHG Score'' ''ghgScore'',
     set_numeric E v r ''Annual Petroleum Consumption For Fuel Type1'' ''annualPetroleumConsumption'',
     set_numeric E v r ''City gasoline consumption'' ''cityGasolineConsumption'',
     set_numeric E v r ''City electricity consumption'' ''cityElectricityConsumption'',
     set_str E v r ''MPG Data'' ''mpgData'',
     set_str E v r ''Electric motor'' ''electricMotorSpec'',
     setattr E v ''hasElectricity'' (VBool (has_electricity E r)),
     set_mapped E v r ''Fuel Type'' (fuel_type_map M) ''hasFuelType'',
     set_mapped E v r ''Drive'' (drive_type_map M) ''hasDriveType'',
     set_mapped E v r ''Vehicle Size Class'' (size_class_map M) ''hasSizeClass'',
     set_mapped E v r ''Make'' (manufacturer_map M) ''hasManufacturer'',
     set_mapped E v r ''Year'' (model_year_map M) ''hasModelYear'',
     set_body_style E v r (body_style_map M),
     set_boost_system E v r,
     set_market_segment E v r]"

text \<open>The \<^verbatim>\<open>try\<close> block of the loop body: \<^verbatim>\<open>vehicle = onto.Vehicle(vehicle_id)\<close>, then the properties.\<close>

definition vehicle_body :: "env \<Rightarrow> maps \<Rightarrow> row \<Rightarrow> string \<Rightarrow> unit prog" where
  "vehicle_body E M r vehicle_id =
     thn (new_individual E ''Vehicle'' vehicle_id) (run_steps (vehicle_steps E M r vehicle_id))"

record counters =
  processed_count :: nat
  successful_count :: nat

text \<open>The line of the log at the start of each batch of \<^verbatim>\<open>BATCH_SIZE\<close> rows.\<close>

definition log_batch :: "nat \<Rightarrow> counters \<Rightarrow> unit prog" where
  "log_batch sample_size cnt =
     whenever (processed_count cnt mod BATCH_SIZE = 0)
       (logm (Info (''Processing vehicle batch '' @ str_nat (processed_count cnt div BATCH_SIZE + 1) @
          ''/'' @ str_nat ((sample_size + BATCH_SIZE - 1) div BATCH_SIZE) @ ''...'')))"

text \<open>One pass of the loop over the sample.\<close>

definition process_row ::
  "env \<Rightarrow> maps \<Rightarrow> string list \<Rightarrow> nat \<Rightarrow> nat \<times> cell list \<Rightarrow> counters \<Rightarrow> counters prog" where
  "process_row E M cols sample_size ir cnt =
     thn (log_batch sample_size cnt)
    (bnd (lift (vehicle_id_of E (fst ir) (row_of cols (snd ir)))) (\<lambda>vehicle_id.
     bnd (try_except
            (thn (vehicle_body E M (row_of cols (snd ir)) vehicle_id) (ret (successful_count cnt + 1)))
            (\<lambda>e. thn (logm (Err (''ERROR processing vehicle '' @ vehicle_id) e))
                 (ret (successful_count cnt))))
         (\<lambda>s. ret \<lparr> processed_count = processed_count cnt + 1, successful_count = s \<rparr>)))"

text \<open>\<^verbatim>\<open>sample_data\<close>: the whole frame, or \<^verbatim>\<open>data.sample(sample_size)\<close>; each row with its index.\<close>

definition sample_data :: "env \<Rightarrow> dataframe \<Rightarrow> (nat \<times> cell list) list" where
  "sample_data E data =
     (let n = length (rows data); sample_size = min MAX_VEHICLES n in
      if sample_size < n then map (\<lambda>i. (i, rows data ! i)) (sample_idx E sample_size n)
      else zip [0..<n] (rows data))"

definition populate_vehicles :: "env \<Rightarrow> maps \<Rightarrow> dataframe \<Rightarrow> counters prog" where
  "populate_vehicles E M data =
     (let n = length (rows data); sample_size = min MAX_VEHICLES n in
      thn (logm (Info ''Populating Vehicle instances...''))
     (thn (logm (Info (if sample_size < n
             then ''Processing '' @ str_nat sample_size @ '' sample vehicles out of '' @ str_nat n @ '' total...''
             else ''Processing all '' @ str_nat sample_size @ '' vehicles...'')))
     (bnd (fold_prog (process_row E M (columns data) sample_size) (sample_data E data)
             \<lparr> processed_count = 0, successful_count = 0 \<rparr>) (\<lambda>cnt.
      thn (logm (Info (''Vehicle population completed. Successfully processed '' @
             str_nat (successful_count cnt) @ '' out of '' @ str_nat (processed_count cnt) @ '' vehicles.'')))
          (ret cnt)))))"

section \<open>Saving, reasoning, reporting\<close>

definition save_ontology :: "env \<Rightarrow> unit prog" where
  "save_ontology E =
     thn (logm (Info (''Saving populated ontology to '' @ OUTPUT_FILENAME @ ''...'')))
       (try_except
          (thn (call E (SaveOntology OUTPUT_FILENAME)) (logm (Info (''Ontology saved to '' @ OUTPUT_FILENAME))))
          (\<lambda>e. logm (Err ''Error saving populated ontology'' e)))"

definition run_reasoner :: "env \<Rightarrow> unit prog" where
  "run_reasoner E =
     thn (logm (Info ''Running HermiT reasoner to classify vehicles...''))
       (try_except
          (thn (call E RunReasoner) (logm (Info ''Reasoning completed successfully'')))
          (\<lambda>e. logm (Err ''Error during reasoning'' e)))"

text \<open>\<^verbatim>\<open>len(list(getattr(onto, n).instances()))\<close>: \<^verbatim>\<open>None\<close> has no attribute \<^verbatim>\<open>instances\<close>.\<close>

definition count_instances :: "env \<Rightarrow> string \<Rightarrow> nat prog" where
  "count_instances E n =
     bnd (getattr_onto n) (\<lambda>c.
       case c of
         VEnt k \<Rightarrow> thn (call E (QueryInstances n)) (ret (instances_count E n))
       | _ \<Rightarrow> raise_exc AttributeError)"

definition report_statistics :: "env \<Rightarrow> unit prog" where
  "report_statistics E =
     thn (logm (Info ''Ontology population statistics (after reasoning):''))
       (try_except
          (thn (call E QueryIndividuals)
          (bnd (count_instances E ''Vehicle'') (\<lambda>vehicle_instances.
           thn (logm (Info (''Total number of individuals: '' @ str_nat (total_individuals E))))
          (thn (logm (Info (''Vehicle instances: '' @ str_nat vehicle_instances)))
               (for_each vehicle_categories (\<lambda>category.
                  bnd (count_instances E category) (\<lambda>instances.
                    whenever (instances > 0)
                      (logm (Info (''  '' @ category @ '': '' @ str_nat instances @ '' instances''))))))))))
          (\<lambda>e. logm (Err ''Error calculating statistics'' e)))"

section \<open>The whole run\<close>

definition populate_ontology :: "env \<Rightarrow> unit prog" where
  "populate_ontology E =
     thn (logm (Info ''Starting ontology population process''))
    (thn (load_ontology E)
    (thn (ensure_dir E ARTIFACTS_DIR)
    (bnd (load_data E) (\<lambda>data.
     thn (export_artifacts E data)
    (bnd (setup_mappings E data) (\<lambda>M.
     thn (populate_vehicles E M data)
    (thn (save_ontology E)
    (thn (run_reasoner E)
    (thn (report_statistics E)
         (logm (Info ''Ontology population process completed'')))))))))))"

text \<open>\<^verbatim>\<open>main\<close>: any exception that leaves \<^verbatim>\<open>populate_ontology\<close> is logged and exits with code 1.\<close>

definition main :: "env \<Rightarrow> unit prog" where
  "main E = try_except (populate_ontology E) (\<lambda>e. thn (logm (Err ''CRITICAL ERROR'' e)) (sys_exit 1))"

definition initial_world :: world where
  "initial_world = \<lparr> entities = [], trace = [] \<rparr>"

text \<open>The exit code of the process: 0 when \<^verbatim>\<open>main\<close> returns, the code of \<^verbatim>\<open>sys.exit\<close>,
  1 for an exception nothing caught.\<close>

definition exit_code :: "env \<Rightarrow> nat" where
  "exit_code E =
     (case fst (main E initial_world) of
        Inr u \<Rightarrow> 0
      | Inl (SystemExit n) \<Rightarrow> n
      | Inl (Exception e) \<Rightarrow> 1)"

definition run_trace :: "env \<Rightarrow> event list" where
  "run_trace E = trace (snd (main E initial_world))"

section \<open>Specifications of programs\<close>

text \<open>
  \<open>spec Q m\<close>: whatever the state, \<open>m\<close> only appends events to the trace, and \<open>Q\<close> holds
  of the exception that leaves \<open>m\<close> (\<open>None\<close> when it returns) and of the events it appends.
  \<open>seq_ok Q\<close>: such a \<open>Q\<close> is kept by sequencing and by \<^verbatim>\<open>try\<close>.
\<close>

definition exc_of :: "exc + 'a \<Rightarrow> exc option" where
  "exc_of r = (case r of Inl e \<Rightarrow> Some e | Inr x \<Rightarrow> None)"

definition spec :: "(exc option \<Rightarrow> event list \<Rightarrow> bool) \<Rightarrow> 'a prog \<Rightarrow> bool" where
  "spec Q m = (\<forall>w. \<exists>evs. trace (snd (m w)) = trace w @ evs \<and> Q (exc_of (fst (m w))) evs)"

definition seq_ok :: "(exc option \<Rightarrow> event list \<Rightarrow> bool) \<Rightarrow> bool" where
  "seq_ok Q = (Q None [] \<and>
     (\<forall>evs1 r evs2. Q None evs1 \<longrightarrow> Q r evs2 \<longrightarrow> Q r (evs1 @ evs2)) \<and>
     (\<forall>e evs1 r evs2. Q (Some (Exception e)) evs1 \<longrightarrow> Q r evs2 \<longrightarrow> Q r (evs1 @ evs2)))"

text \<open>\<open>only P\<close>: every appended event satisfies \<open>P\<close>, and the program does not exit.\<close>

definition only :: "(event \<Rightarrow> bool) \<Rightarrow> exc option \<Rightarrow> event list \<Rightarrow> bool" where
  "only P r evs = (list_all P evs \<and> (\<forall>n. r \<noteq> Some (SystemExit n)))"

text \<open>The call an event records, and the step of the run a call belongs to:
  0 loading the ontology, 1 the artifacts directory, 2 loading the CSV file, 3 the
  artifact files, 4 the individuals of the lookup maps, 5 the vehicles, 6 saving,
  7 reasoning, 8 the report.\<close>

fun effect_of :: "event \<Rightarrow> effect option" where
  "effect_of (Did eff) = Some eff"
| "effect_of (Failed eff e) = Some eff"
| "effect_of (Log l) = None"

fun phase_of_effect :: "effect \<Rightarrow> nat" where
  "phase_of_effect (LoadOntology f) = 0"
| "phase_of_effect (MakeDirs p) = 1"
| "phase_of_effect (ReadCsv f sep) = 2"
| "phase_of_effect (OpenWrite p) = 3"
| "phase_of_effect (WriteLines p) = 3"
| "phase_of_effect (NewIndividual c n) = (if c = ''Vehicle'' then 5 else 4)"
| "phase_of_effect (SetAttr i p x) = 5"
| "phase_of_effect (SaveOntology f) = 6"
| "phase_of_effect RunReasoner = 7"
| "phase_of_effect QueryIndividuals = 8"
| "phase_of_effect (QueryInstances c) = 8"

definition phase :: "event \<Rightarrow> nat option" where
  "phase ev = map_option phase_of_effect (effect_of ev)"

text \<open>The line \<^verbatim>\<open>main\<close> logs for an exception that left \<^verbatim>\<open>populate_ontology\<close>.\<close>

fun critical :: "event \<Rightarrow> bool" where
  "critical (Log (Err m e)) = (m = ''CRITICAL ERROR'')"
| "critical ev = False"

text \<open>An event of step \<open>k\<close>: a line of the log other than the critical one, or a call of step \<open>k\<close>.\<close>

definition stage_ev :: "nat \<Rightarrow> event \<Rightarrow> bool" where
  "stage_ev k ev = (\<not> critical ev \<and> (case effect_of ev of None \<Rightarrow> True | Some eff \<Rightarrow> phase_of_effect eff = k))"

text \<open>An event of step \<open>k\<close> that is not the log of an exception.\<close>

fun quiet_ev :: "nat \<Rightarrow> event \<Rightarrow> bool" where
  "quiet_ev k (Log (Info s)) = True"
| "quiet_ev k (Log (Err m e)) = False"
| "quiet_ev k (Did eff) = (phase_of_effect eff = k)"
| "quiet_ev k (Failed eff e) = (phase_of_effect eff = k)"

text \<open>The line the loop over the sample logs for a row whose \<^verbatim>\<open>try\<close> block raised.\<close>

fun row_error :: "event \<Rightarrow> bool" where
  "row_error (Log (Err m e)) = starts_with ''ERROR processing vehicle '' m"
| "row_error ev = False"

text \<open>What pandas promises of \<^verbatim>\<open>data.sample(k)\<close> on a frame of \<open>n\<close> rows, \<open>k \<le> n\<close>:
  \<open>k\<close> different positions of the frame.\<close>

definition sample_ok :: "env \<Rightarrow> bool" where
  "sample_ok E = (\<forall>k n. k \<le> n \<longrightarrow>
     length (sample_idx E k n) = k \<and> distinct (sample_idx E k n) \<and>
     (\<forall>i \<in> set (sample_idx E k n). i < n))"

section \<open>The properties assigned to an individual\<close>

text \<open>The entity a name resolves to among the names \<open>es\<close> of the ontology.\<close>

definition resolve :: "string list \<Rightarrow> string \<Rightarrow> pyval" where
  "resolve es n = (if n \<in> set es then VEnt n else VNone)"

text \<open>The values that the events \<open>evs\<close> assign to the property \<open>p\<close> of the individual \<open>v\<close>, in their order.\<close>

fun assigned_ev :: "string \<Rightarrow> string \<Rightarrow> event \<Rightarrow> pyval list" where
  "assigned_ev v p (Did (SetAttr i q x)) = (if i = v \<and> q = p then [x] else [])"
| "assigned_ev v p ev = []"

definition assigned :: "string \<Rightarrow> string \<Rightarrow> event list \<Rightarrow> pyval list" where
  "assigned v p evs = concat (map (assigned_ev v p) evs)"

text \<open>\<open>assigns v p m f\<close>: the statement \<open>m\<close> creates no entity, and when it returns it has
  assigned to the property \<open>p\<close> of \<open>v\<close> the values \<open>f es\<close>, for the names \<open>es\<close> of the ontology.\<close>

definition assigns :: "string \<Rightarrow> string \<Rightarrow> unit prog \<Rightarrow> (string list \<Rightarrow> pyval list) \<Rightarrow> bool" where
  "assigns v p m f =
     (\<forall>w r w'. m w = (r, w') \<longrightarrow> entities w' = entities w \<and>
        (r = Inr () \<longrightarrow> (\<exists>evs. trace w' = trace w @ evs \<and> assigned v p evs = f (entities w))))"

text \<open>
  The values the statements of the \<^verbatim>\<open>try\<close> block assign to the property \<open>p\<close> of the
  vehicle, statement by statement: a table of the block, to compare it with.
\<close>

definition str_val :: "env \<Rightarrow> row \<Rightarrow> string \<Rightarrow> string \<Rightarrow> string \<Rightarrow> pyval list" where
  "str_val E r c q p = (if q = p \<and> notna r c then [VStr (py_str E (cellv r c))] else [])"

definition num_val :: "env \<Rightarrow> row \<Rightarrow> string \<Rightarrow> string \<Rightarrow> string \<Rightarrow> pyval list" where
  "num_val E r c q p =
     (if q = p \<and> notna r c
      then (case decimal_float E (py_str E (cellv r c)) of None \<Rightarrow> [] | Some y \<Rightarrow> [VNum y])
      else [])"

definition map_val :: "row \<Rightarrow> string \<Rightarrow> pyval dict \<Rightarrow> string \<Rightarrow> string \<Rightarrow> pyval list" where
  "map_val r c m q p =
     (if q = p \<and> notna r c then (case map_of m (cellv r c) of None \<Rightarrow> [] | Some x \<Rightarrow> [x]) else [])"

definition boost_name :: "row \<Rightarrow> string" where
  "boost_name r =
     (if notna r ''T Charger'' \<and> cellv r ''T Charger'' = CStr ''T'' then ''Turbocharger''
      else if notna r ''S Charger'' \<and> cellv r ''S Charger'' = CStr ''S'' then ''Supercharger''
      else ''NaturallyAspirated'')"

definition row_assignments :: "env \<Rightarrow> maps \<Rightarrow> row \<Rightarrow> string \<Rightarrow> string list \<Rightarrow> pyval list" where
  "row_assignments E M r p es =
     str_val E r ''Make'' ''make'' p @
     str_val E r ''Model'' ''model'' p @
     (if ''year'' = p \<and> notna r ''Year''
      then (case py_int (cellv r ''Year'') of Inl e \<Rightarrow> [] | Inr y \<Rightarrow> [VInt y]) else []) @
     num_val E r ''Cylinders'' ''cylinders'' p @
     num_val E r ''You Save/Spend'' ''savings'' p @
     str_val E r ''Transmission'' ''transmission'' p @
     num_val E r ''Co2 Fuel Type1'' ''co2Emissions'' p @
     str_val E r ''Engine descriptor'' ''engineDescriptor'' p @
     num_val E r ''EPA Fuel Economy Score'' ''epaFuelEconomyScore'' p @
     num_val E r ''GHG Score'' ''ghgScore'' p @
     num_val E r ''Annual Petroleum Consumption For Fuel Type1'' ''annualPetroleumConsumption'' p @
     num_val E r ''City gasoline consumption'' ''cityGasolineConsumption'' p @
     num_val E r ''City electricity consumption'' ''cityElectricityConsumption'' p @
     str_val E r ''MPG Data'' ''mpgData'' p @
     str_val E r ''Electric motor'' ''electricMotorSpec'' p @
     (if ''hasElectricity'' = p then [VBool (has_electricity E r)] else []) @
     map_val r ''Fuel Type'' (fuel_type_map M) ''hasFuelType'' p @
     map_val r ''Drive'' (drive_type_map M) ''hasDriveType'' p @
     map_val r ''Vehicle Size Class'' (size_class_map M) ''hasSizeClass'' p @
     map_val r ''Make'' (manufacturer_map M) ''hasManufacturer'' p @
     map_val r ''Year'' (model_year_map M) ''hasModelYear'' p @
     (if ''hasBodyStyle'' = p \<and> notna r ''Vehicle Size Class''
      then [case map_of (body_style_map M) (cellv r ''Vehicle Size Class'') of
              None \<Rightarrow> resolve es ''Sedan'' | Some x \<Rightarrow> x]
      else []) @
     (if ''hasBoostSystem'' = p then [resolve es (boost_name r)] else []) @
     (if ''hasMarketSegment'' = p
      then (if notna r ''You Save/Spend''
            then (case get_market_segment (cellv r ''You Save/Spend'') of
                    Inl e \<Rightarrow> [] | Inr seg \<Rightarrow> [resolve es seg])
            else [resolve es ''StandardMarket''])
      else []) @
     []"

text \<open>\<open>grows w w'\<close>: the trace of \<open>w'\<close> continues the trace of \<open>w\<close>.\<close>

definition grows :: "world \<Rightarrow> world \<Rightarrow> bool" where
  "grows w w' = (\<exists>evs. trace w' = trace w @ evs)"


section \<open>An environment to run the model in\<close>

text \<open>No call into a library raises, the ontology defines the names the script looks up,
  numbers print as the decimal form of their integer part.\<close>

definition quiet_env :: "dataframe \<Rightarrow> env" where
  "quiet_env d =
     \<lparr> raises = (\<lambda>h e. None),
       ontology_entities = [''Vehicle'', ''Manufacturer'', ''ModelYear'', ''FuelType'', ''Diesel'',
          ''Regular'', ''E85'', ''Sedan'', ''Turbocharger'', ''Supercharger'', ''NaturallyAspirated'',
          ''StandardMarket'', ''PremiumMarket'', ''EconomyMarket''],
       csv_data = (\<lambda>sep. d),
       dir_exists = (\<lambda>p. True),
       sample_idx = (\<lambda>k n. [0..<k]),
       str_num = (\<lambda>x. str_int (if 0 \<le> x then \<lfloor>x\<rfloor> else \<lceil>x\<rceil>)),
       decimal_float = (\<lambda>s. None),
       total_individuals = 0,
       instances_count = (\<lambda>c. 0) \<rparr>"


definition two_rows :: dataframe where
  "two_rows = \<lparr>columns = [''ID''], rows = [[CNum 1], [CNum 2]]\<rparr>"

definition no_maps :: maps where
  "no_maps = \<lparr> fuel_type_map = [], drive_type_map = [], size_class_map = [], body_style_map = [],
      boost_system_map = [], manufacturer_map = [], model_year_map = [] \<rparr>"

text \<open>The state after the ontology of \<open>quiet_env\<close> is loaded, and a row with a fuel type.\<close>

definition loaded_world :: world where
  "loaded_world = \<lparr> entities = ontology_entities (quiet_env two_rows), trace = [] \<rparr>"

definition e85_frame :: dataframe where
  "e85_frame = \<lparr>columns = [''ID'', ''Fuel Type''], rows = [[CNum 1, CStr ''Gasoline or E85'']]\<rparr>"

definition e85_maps :: maps where
  "e85_maps = no_maps \<lparr> fuel_type_map := [(CStr ''Gasoline or E85'', VEnt ''E85'')] \<rparr>"

text \<open>A row without the columns of the boost system and of the savings.\<close>

definition bare_row :: row where
  "bare_row = row_of [''ID''] [CNum 1]"

text \<open>A frame whose only year is 0.\<close>

definition year_zero :: dataframe where
  "year_zero = \<lparr>columns = [''ID'', ''Year''], rows = [[CNum 1, CNum 0]]\<rparr>"

text \<open>A frame with a make and a year, and the maps its set-up gives.\<close>

definition bmw_frame :: dataframe where
  "bmw_frame = \<lparr>columns = [''ID'', ''Make'', ''Year''], rows = [[CNum 1, CStr ''BMW'', CNum 2020]]\<rparr>"

definition bmw_maps :: maps where
  "bmw_maps = no_maps \<lparr> manufacturer_map := [(CStr ''BMW'', VEnt ''BMW'')],
                        model_year_map := [(CNum 2020, VEnt ''Year_2020'')] \<rparr>"

section \<open>Properties\<close>

lemma str_nat_nonempty: "str_nat n \<noteq> []"
  by (subst str_nat.simps) simp

lemma re_sub_special_chars: "c \<in> set (re_sub_special s) \<Longrightarrow> is_alnum c \<or> c = CHR ''_''"
  by (auto simp: re_sub_special_def)

lemma re_sub_special_length: "length (re_sub_special s) = length s"
  by (simp add: re_sub_special_def)

lemma is_alpha_V: "is_alpha (CHR ''V'')"
  by (simp add: is_alpha_def)

lemma is_alpha_alnum: "is_alpha c \<Longrightarrow> is_alnum c"
  by (simp add: is_alnum_def)

lemma py_str_nonempty: "(\<And>x. str_num E x \<noteq> []) \<Longrightarrow> truthy c \<Longrightarrow> py_str E c \<noteq> []"
  by (cases c) auto

text \<open>
  C8. \<^verbatim>\<open>create_valid_id\<close> returns for every input a non-empty string that starts with a
  letter and holds only letters, digits and underscores: a falsy input gives
  \<^verbatim>\<open>"Unknown"\<close>; otherwise every character of \<^verbatim>\<open>str(text)\<close> outside \<open>[a-zA-Z0-9]\<close> is
  replaced by an underscore, and the result is prefixed with \<^verbatim>\<open>"V_"\<close> when it does not
  start with a letter. (The only fact of Python used: \<^verbatim>\<open>str\<close> of a number is not empty.)
\<close>

theorem create_valid_id_valid:
  assumes "\<And>x. str_num E x \<noteq> []"
  shows "\<exists>v. create_valid_id E text = Inr v \<and> v \<noteq> [] \<and> is_alpha (hd v) \<and>
           list_all (\<lambda>c. is_alnum c \<or> c = CHR ''_'') v \<and>
           (if \<not> truthy text then v = ''Unknown''
            else if is_alpha (hd (re_sub_special (py_str E text))) then v = re_sub_special (py_str E text)
            else v = ''V_'' @ re_sub_special (py_str E text)) \<and>
           length (re_sub_special (py_str E text)) = length (py_str E text) \<and>
           list_all2 (\<lambda>c d. d = (if is_alnum c then c else CHR ''_''))
             (py_str E text) (re_sub_special (py_str E text))"
proof (cases "truthy text")
  case False
  have "list_all (\<lambda>c. is_alnum c \<or> c = CHR ''_'') ''Unknown''"
    by (simp add: is_alnum_def is_alpha_def is_digit_def)
  moreover have "is_alpha (hd ''Unknown'')"
    by (simp add: is_alpha_def)
  moreover have "list_all2 (\<lambda>c d. d = (if is_alnum c then c else CHR ''_''))
             (py_str E text) (re_sub_special (py_str E text))"
    by (simp add: re_sub_special_def list_all2_conv_all_nth)
  ultimately show ?thesis
    using False by (simp add: create_valid_id_def re_sub_special_length)
next
  case True
  define s where "s = re_sub_special (py_str E text)"
  have ne: "s \<noteq> []"
    using py_str_nonempty [OF assms True] by (simp add: s_def re_sub_special_def)
  then obtain c cs where s: "s = c # cs"
    by (cases s) auto
  have chars: "list_all (\<lambda>c. is_alnum c \<or> c = CHR ''_'') s"
    unfolding list_all_iff s_def using re_sub_special_chars by blast
  have rel: "list_all2 (\<lambda>c d. d = (if is_alnum c then c else CHR ''_'')) (py_str E text) s"
    by (simp add: s_def re_sub_special_def list_all2_conv_all_nth)
  have len: "length s = length (py_str E text)"
    by (simp add: s_def re_sub_special_length)
  show ?thesis
  proof (cases "is_alpha c")
    case True
    then have "create_valid_id E text = Inr s"
      using \<open>truthy text\<close> s by (simp add: create_valid_id_def s_def [symmetric])
    then show ?thesis
      using True s chars rel len \<open>truthy text\<close> by (simp add: s_def [symmetric])
  next
    case False
    then have "create_valid_id E text = Inr (''V_'' @ s)"
      using \<open>truthy text\<close> s by (simp add: create_valid_id_def s_def [symmetric])
    moreover have "list_all (\<lambda>c. is_alnum c \<or> c = CHR ''_'') (''V_'' @ s)"
      using chars is_alpha_alnum [OF is_alpha_V] by simp
    ultimately show ?thesis
      using False s rel len \<open>truthy text\<close> is_alpha_V by (simp add: s_def [symmetric])
  qed
qed

theorem create_valid_id_valid_witness:
  "create_valid_id (quiet_env \<lparr>columns = [], rows = []\<rparr>) (CStr ''3 Series'') = Inr ''V_3_Series''"
proof -
  have "\<And>x. str_num (quiet_env \<lparr>columns = [], rows = []\<rparr>) x \<noteq> []"
    by (simp add: quiet_env_def str_int_def str_nat_nonempty)
  from create_valid_id_valid [OF this, of "CStr ''3 Series''"]
  show ?thesis
    by (simp add: re_sub_special_def is_alnum_def is_alpha_def is_digit_def)
qed

text \<open>
  C9. \<^verbatim>\<open>get_market_segment\<close> returns, on every numeric value, exactly one of the three
  segments: NaN gives StandardMarket, savings below -10000 PremiumMarket, savings from
  -10000 up to, not including, -1000 StandardMarket, savings of -1000 or more
  EconomyMarket; each threshold itself belongs to the higher segment.
\<close>

theorem get_market_segment_total:
  "get_market_segment CNaN = Inr ''StandardMarket'' \<and>
   get_market_segment (CNum x) =
     Inr (if x < - 10000 then ''PremiumMarket''
          else if x < - 1000 then ''StandardMarket'' else ''EconomyMarket'') \<and>
   get_market_segment (CInf b) = Inr (if b then ''EconomyMarket'' else ''PremiumMarket'') \<and>
   get_market_segment (CNum (- 10000)) = Inr ''StandardMarket'' \<and>
   get_market_segment (CNum (- 1000)) = Inr ''EconomyMarket''"
  by (simp add: get_market_segment_def isna_def PREMIUM_THRESHOLD_def STANDARD_THRESHOLD_def)

theorem get_market_segment_total_witness:
  "get_market_segment (CNum (- 10000.5)) = Inr ''PremiumMarket'' \<and>
   get_market_segment (CNum (- 1000.5)) = Inr ''StandardMarket'' \<and>
   get_market_segment (CNum 250) = Inr ''EconomyMarket''"
  using get_market_segment_total [of "- 10000.5" True]
    get_market_segment_total [of "- 1000.5" True] get_market_segment_total [of 250 True]
  by simp

subsection \<open>Rules for specifications\<close>

lemma exc_of_simps [simp]: "exc_of (Inl e) = Some e" "exc_of (Inr x) = None"
  by (simp_all add: exc_of_def)

lemma specI: "(\<And>w. \<exists>evs. trace (snd (m w)) = trace w @ evs \<and> Q (exc_of (fst (m w))) evs) \<Longrightarrow> spec Q m"
  by (simp add: spec_def)

lemma specD: "spec Q m \<Longrightarrow> \<exists>evs. trace (snd (m w)) = trace w @ evs \<and> Q (exc_of (fst (m w))) evs"
  by (simp add: spec_def)

lemma spec_ret: "seq_ok Q \<Longrightarrow> spec Q (ret x)"
  by (simp add: spec_def ret_def seq_ok_def)

lemma spec_bnd:
  assumes ok: "seq_ok Q" and m: "spec Q m" and f: "\<And>x. spec Q (f x)"
  shows "spec Q (bnd m f)"
proof (rule specI)
  fix w
  obtain r w1 where mw: "m w = (r, w1)" by (cases "m w")
  from specD [OF m, of w] mw obtain evs1 where
    t1: "trace w1 = trace w @ evs1" and q1: "Q (exc_of r) evs1" by auto
  show "\<exists>evs. trace (snd (bnd m f w)) = trace w @ evs \<and> Q (exc_of (fst (bnd m f w))) evs"
  proof (cases r)
    case (Inl e)
    then show ?thesis using mw t1 q1 by (auto simp: bnd_def)
  next
    case (Inr x)
    from specD [OF f, of x w1] obtain evs2 where
      t2: "trace (snd (f x w1)) = trace w1 @ evs2" and q2: "Q (exc_of (fst (f x w1))) evs2" by auto
    have "Q (exc_of (fst (f x w1))) (evs1 @ evs2)"
      using ok q1 q2 Inr by (auto simp: seq_ok_def)
    then show ?thesis using mw Inr t1 t2 by (auto simp: bnd_def)
  qed
qed

lemma spec_thn: "seq_ok Q \<Longrightarrow> spec Q m \<Longrightarrow> spec Q n \<Longrightarrow> spec Q (thn m n)"
  by (simp add: thn_def spec_bnd)

lemma spec_try:
  assumes ok: "seq_ok Q" and m: "spec Q m" and h: "\<And>e. spec Q (h e)"
  shows "spec Q (try_except m h)"
proof (rule specI)
  fix w
  obtain r w1 where mw: "m w = (r, w1)" by (cases "m w")
  from specD [OF m, of w] mw obtain evs1 where
    t1: "trace w1 = trace w @ evs1" and q1: "Q (exc_of r) evs1" by auto
  show "\<exists>evs. trace (snd (try_except m h w)) = trace w @ evs \<and> Q (exc_of (fst (try_except m h w))) evs"
  proof (cases r)
    case (Inr x)
    then show ?thesis using mw t1 q1 by (auto simp: try_except_def)
  next
    case (Inl e)
    show ?thesis
    proof (cases e)
      case (SystemExit n)
      then show ?thesis using mw Inl t1 q1 by (auto simp: try_except_def)
    next
      case (Exception e')
      from specD [OF h, of e' w1] obtain evs2 where
        t2: "trace (snd (h e' w1)) = trace w1 @ evs2" and q2: "Q (exc_of (fst (h e' w1))) evs2" by auto
      have "Q (exc_of (fst (h e' w1))) (evs1 @ evs2)"
        using ok q1 q2 Inl Exception by (auto simp: seq_ok_def)
      then show ?thesis using mw Inl Exception t1 t2 by (auto simp: try_except_def)
    qed
  qed
qed

lemma spec_emit: "Q None [ev] \<Longrightarrow> spec Q (emit ev)"
  by (simp add: spec_def emit_def)

lemma spec_logm: "Q None [Log l] \<Longrightarrow> spec Q (logm l)"
  by (simp add: logm_def spec_emit)

lemma spec_call:
  "Q None [Did eff] \<Longrightarrow> (\<And>e. Q (Some (Exception e)) [Failed eff e]) \<Longrightarrow> spec Q (call E eff)"
  by (auto simp: spec_def call_def split: option.splits)

lemma spec_raise: "Q (Some (Exception e)) [] \<Longrightarrow> spec Q (raise_exc e)"
  by (simp add: spec_def raise_exc_def)

lemma spec_lift: "seq_ok Q \<Longrightarrow> (\<And>e. Q (Some (Exception e)) []) \<Longrightarrow> spec Q (lift r)"
  by (cases r) (simp_all add: lift_def spec_raise spec_ret)

lemma spec_whenever: "seq_ok Q \<Longrightarrow> spec Q m \<Longrightarrow> spec Q (whenever b m)"
  by (simp add: whenever_def spec_ret)

lemma spec_for_each: "seq_ok Q \<Longrightarrow> (\<And>x. spec Q (f x)) \<Longrightarrow> spec Q (for_each xs f)"
  by (induction xs) (simp_all add: spec_ret spec_thn)

lemma spec_fold_prog: "seq_ok Q \<Longrightarrow> (\<And>x s. spec Q (f x s)) \<Longrightarrow> spec Q (fold_prog f xs s)"
  by (induction xs arbitrary: s) (simp_all add: spec_ret spec_bnd)

lemma spec_run_steps: "seq_ok Q \<Longrightarrow> (\<And>m. m \<in> set ms \<Longrightarrow> spec Q m) \<Longrightarrow> spec Q (run_steps ms)"
  by (induction ms) (simp_all add: spec_ret spec_thn)

lemma spec_getattr_onto: "seq_ok Q \<Longrightarrow> spec Q (getattr_onto n)"
  by (simp add: spec_def getattr_onto_def seq_ok_def)

lemma spec_add_entity: "seq_ok Q \<Longrightarrow> spec Q (add_entity n)"
  by (simp add: spec_def add_entity_def seq_ok_def)

lemma spec_convert_map: "seq_ok Q \<Longrightarrow> spec Q (convert_map M)"
  by (simp add: spec_def convert_map_def seq_ok_def)

lemma seq_ok_only: "seq_ok (only P)"
  by (auto simp: seq_ok_def only_def)

lemma spec_only_mono: "spec (only P) m \<Longrightarrow> (\<And>ev. P ev \<Longrightarrow> P' ev) \<Longrightarrow> spec (only P') m"
  unfolding spec_def only_def list_all_iff by blast

lemma only_log: "P (Log l) \<Longrightarrow> spec (only P) (logm l)"
  by (rule spec_logm) (simp add: only_def)

lemma only_call: "P (Did eff) \<Longrightarrow> (\<And>e. P (Failed eff e)) \<Longrightarrow> spec (only P) (call E eff)"
  by (rule spec_call) (simp_all add: only_def)

lemma only_lift: "spec (only P) (lift r)"
  by (rule spec_lift) (simp_all add: seq_ok_only only_def)

lemma only_raise: "spec (only P) (raise_exc e)"
  by (rule spec_raise) (simp add: only_def)

lemmas only_rules =
  spec_ret [OF seq_ok_only] spec_bnd [OF seq_ok_only] spec_thn [OF seq_ok_only]
  spec_try [OF seq_ok_only] spec_whenever [OF seq_ok_only] spec_for_each [OF seq_ok_only]
  spec_fold_prog [OF seq_ok_only] spec_run_steps [OF seq_ok_only]
  spec_getattr_onto [OF seq_ok_only] spec_add_entity [OF seq_ok_only]
  spec_convert_map [OF seq_ok_only] only_lift only_raise

lemma stage_ev_info [simp]: "stage_ev k (Log (Info s))"
  by (simp add: stage_ev_def)

lemma stage_ev_err [simp]: "stage_ev k (Log (Err m e)) = (m \<noteq> ''CRITICAL ERROR'')"
  by (simp add: stage_ev_def)

lemma stage_ev_did [simp]: "stage_ev k (Did eff) = (phase_of_effect eff = k)"
  by (simp add: stage_ev_def)

lemma stage_ev_failed [simp]: "stage_ev k (Failed eff e) = (phase_of_effect eff = k)"
  by (simp add: stage_ev_def)

lemma only_new_individual:
  "P (Did (NewIndividual c n)) \<Longrightarrow> (\<And>e. P (Failed (NewIndividual c n) e)) \<Longrightarrow>
   spec (only P) (new_individual E c n)"
  unfolding new_individual_def
  by (intro only_rules only_call) (auto split: pyval.splits intro!: only_rules only_call)

lemma save_ontology_stage: "spec (only (stage_ev 6)) (save_ontology E)"
  unfolding save_ontology_def
  by (intro only_rules only_call only_log) simp_all

lemma run_reasoner_stage: "spec (only (stage_ev 7)) (run_reasoner E)"
  unfolding run_reasoner_def
  by (intro only_rules only_call only_log) simp_all

lemma count_instances_stage: "spec (only (stage_ev 8)) (count_instances E n)"
  unfolding count_instances_def
  by (intro only_rules) (auto split: pyval.splits intro!: only_rules only_call)

lemma report_statistics_stage: "spec (only (stage_ev 8)) (report_statistics E)"
  unfolding report_statistics_def
  by (intro only_rules only_call only_log count_instances_stage) simp_all

lemma ensure_dir_stage: "spec (only (stage_ev 1)) (ensure_dir E d)"
  unfolding ensure_dir_def
  by (auto intro!: only_rules only_call only_log)

lemma save_unique_values_stage: "spec (only (stage_ev 3)) (save_unique_values E vals f)"
  unfolding save_unique_values_def
  by (intro only_rules only_call only_log) simp_all

lemma export_artifacts_stage: "spec (only (stage_ev 3)) (export_artifacts E d)"
  unfolding export_artifacts_def
  by (intro only_rules only_call only_log save_unique_values_stage) simp_all

lemma new_individual_stage4:
  "c \<noteq> ''Vehicle'' \<Longrightarrow> spec (only (stage_ev 4)) (new_individual E c n)"
  by (rule only_new_individual) simp_all

lemma add_fuel_type_stage: "spec (only (stage_ev 4)) (add_fuel_type E c m)"
  unfolding add_fuel_type_def
  by (auto intro!: only_rules only_log new_individual_stage4)

lemma add_size_class_stage: "spec (only (stage_ev 4)) (add_size_class E c m)"
  unfolding add_size_class_def
  by (auto intro!: only_rules only_log new_individual_stage4)

lemma add_drive_type_stage: "spec (only (stage_ev 4)) (add_drive_type E c m)"
  unfolding add_drive_type_def
  by (auto intro!: only_rules only_log new_individual_stage4)

lemma add_body_style_stage: "spec (only (stage_ev 4)) (add_body_style E c m)"
  unfolding add_body_style_def
  by (auto intro!: only_rules only_log)

lemma add_manufacturer_stage: "spec (only (stage_ev 4)) (add_manufacturer E c m)"
  unfolding add_manufacturer_def
  by (auto intro!: only_rules only_log new_individual_stage4)

lemma add_model_year_stage: "spec (only (stage_ev 4)) (add_model_year E c m)"
  unfolding add_model_year_def
  by (auto intro!: only_rules only_log new_individual_stage4)

lemma over_column_only: "(\<And>c s. spec (only P) (f c s)) \<Longrightarrow> spec (only P) (over_column d column f s)"
  unfolding over_column_def by (auto intro!: only_rules)

lemma create_manufacturers_stage: "spec (only (stage_ev 4)) (create_manufacturers E d)"
  unfolding create_manufacturers_def
  by (auto intro!: only_rules only_log over_column_only add_manufacturer_stage)

lemma create_model_years_stage: "spec (only (stage_ev 4)) (create_model_years E d)"
  unfolding create_model_years_def
  by (auto intro!: only_rules only_log over_column_only add_model_year_stage)

lemma setup_mappings_stage: "spec (only (stage_ev 4)) (setup_mappings E d)"
  unfolding setup_mappings_def
  by (intro only_rules only_log over_column_only add_fuel_type_stage add_size_class_stage
        add_drive_type_stage add_body_style_stage create_manufacturers_stage create_model_years_stage)
     simp_all

lemma setattr_stage: "spec (only (quiet_ev 5)) (setattr E v p x)"
  unfolding setattr_def by (rule only_call) simp_all

lemma safe_numeric_conversion_stage: "spec (only (quiet_ev k)) (safe_numeric_conversion E c)"
  unfolding safe_numeric_conversion_def
  by (auto intro!: only_rules only_log split: option.splits)

lemma set_str_stage: "spec (only (quiet_ev 5)) (set_str E v r c p)"
  unfolding set_str_def by (intro only_rules setattr_stage)

lemma set_numeric_stage: "spec (only (quiet_ev 5)) (set_numeric E v r c p)"
  unfolding set_numeric_def
  by (intro only_rules safe_numeric_conversion_stage) (auto intro!: only_rules setattr_stage split: option.splits)

lemma set_mapped_stage: "spec (only (quiet_ev 5)) (set_mapped E v r c m p)"
  unfolding set_mapped_def
  by (intro only_rules) (auto intro!: only_rules setattr_stage split: option.splits)

lemma set_body_style_stage: "spec (only (quiet_ev 5)) (set_body_style E v r m)"
  unfolding set_body_style_def
  by (intro only_rules) (auto intro!: only_rules setattr_stage split: option.splits)

lemma set_boost_system_stage: "spec (only (quiet_ev 5)) (set_boost_system E v r)"
  unfolding set_boost_system_def
  by (auto intro!: only_rules setattr_stage)

lemma set_market_segment_stage: "spec (only (quiet_ev 5)) (set_market_segment E v r)"
  unfolding set_market_segment_def
  by (auto intro!: only_rules setattr_stage)

lemma vehicle_steps_stage: "m \<in> set (vehicle_steps E M r v) \<Longrightarrow> spec (only (quiet_ev 5)) m"
  unfolding vehicle_steps_def
  by (auto intro!: only_rules setattr_stage set_str_stage set_numeric_stage set_mapped_stage
        set_body_style_stage set_boost_system_stage set_market_segment_stage)

lemma vehicle_body_stage: "spec (only (quiet_ev 5)) (vehicle_body E M r v)"
  unfolding vehicle_body_def
  by (intro only_rules only_new_individual vehicle_steps_stage) simp_all

lemma quiet_ev_stage: "quiet_ev k ev \<Longrightarrow> stage_ev k ev"
  by (cases "(k, ev)" rule: quiet_ev.cases) simp_all

lemma log_batch_quiet: "spec (only (quiet_ev k)) (log_batch n cnt)"
  unfolding log_batch_def by (intro only_rules only_log) simp

lemma process_row_stage: "spec (only (stage_ev 5)) (process_row E M cols k ir cnt)"
proof -
  have b: "spec (only (stage_ev 5)) (vehicle_body E M r v)" for r v
    by (rule spec_only_mono [OF vehicle_body_stage quiet_ev_stage])
  have l: "spec (only (stage_ev 5)) (log_batch k cnt)"
    by (rule spec_only_mono [OF log_batch_quiet quiet_ev_stage])
  show ?thesis
    unfolding process_row_def
    by (intro only_rules only_log b l) simp_all
qed

lemma populate_vehicles_stage: "spec (only (stage_ev 5)) (populate_vehicles E M d)"
  unfolding populate_vehicles_def Let_def
  by (intro only_rules only_log process_row_stage) simp_all

subsection \<open>Running programs\<close>

lemma ret_apply: "ret x w = (Inr x, w)"
  by (simp add: ret_def)

lemma logm_apply: "logm l w = (Inr (), w\<lparr>trace := trace w @ [Log l]\<rparr>)"
  by (simp add: logm_def emit_def)

lemma bnd_Inr:
  "bnd m f w = (Inr y, w'') \<longleftrightarrow> (\<exists>x w'. m w = (Inr x, w') \<and> f x w' = (Inr y, w''))"
  by (auto simp: bnd_def split: prod.splits sum.splits)

lemma thn_Inr:
  "thn m n w = (Inr y, w'') \<longleftrightarrow> (\<exists>x w'. m w = (Inr x, w') \<and> n w' = (Inr y, w''))"
  by (simp add: thn_def bnd_Inr)


lemma thn_run: "m w = (Inr x, w') \<Longrightarrow> thn m n w = n w'"
  by (simp add: thn_def bnd_def)

lemma bnd_fail: "m w = (Inl e, w') \<Longrightarrow> bnd m f w = (Inl e, w')"
  by (simp add: bnd_def)

lemma thn_fail: "m w = (Inl e, w') \<Longrightarrow> thn m n w = (Inl e, w')"
  by (simp add: thn_def bnd_def)

lemma spec_trace: "spec Q m \<Longrightarrow> m w = (r, w') \<Longrightarrow> \<exists>evs. trace w' = trace w @ evs \<and> Q (exc_of r) evs"
  using specD [of Q m w] by simp

lemma only_no_exit: "spec (only P) m \<Longrightarrow> m w \<noteq> (Inl (SystemExit n), w')"
  using specD [of "only P" m w] by (auto simp: only_def)

lemma log_batch_run: "\<exists>evs. log_batch k cnt w = (Inr (), w\<lparr>trace := trace w @ evs\<rparr>) \<and> list_all (quiet_ev 5) evs"
proof (cases "processed_count cnt mod BATCH_SIZE = 0")
  case True
  then show ?thesis
    by (intro exI [of _ "[Log (Info (''Processing vehicle batch '' @ str_nat (processed_count cnt div BATCH_SIZE + 1) @
          ''/'' @ str_nat ((k + BATCH_SIZE - 1) div BATCH_SIZE) @ ''...''))]"])
       (simp add: log_batch_def whenever_def logm_apply)
next
  case False
  then show ?thesis
    by (intro exI [of _ "[]"]) (simp add: log_batch_def whenever_def ret_apply)
qed

lemma quiet_not_row_error: "quiet_ev k ev \<Longrightarrow> \<not> row_error ev"
  by (cases "(k, ev)" rule: quiet_ev.cases) simp_all

lemma quiet_no_row_errors: "list_all (quiet_ev k) evs \<Longrightarrow> filter row_error evs = []"
  by (induction evs) (auto dest: quiet_not_row_error)

text \<open>What one pass of the loop does, by the outcome of its \<^verbatim>\<open>try\<close> block.\<close>

lemma process_row_cases:
  assumes vid: "vehicle_id_of E (fst ir) (row_of cols (snd ir)) = Inr vid"
  shows "case vehicle_body E M (row_of cols (snd ir)) vid (snd (log_batch k cnt w)) of
           (Inr u, w2) \<Rightarrow>
             process_row E M cols k ir cnt w =
               (Inr \<lparr>processed_count = processed_count cnt + 1,
                     successful_count = successful_count cnt + 1\<rparr>, w2)
         | (Inl (Exception e), w2) \<Rightarrow>
             process_row E M cols k ir cnt w =
               (Inr \<lparr>processed_count = processed_count cnt + 1,
                     successful_count = successful_count cnt\<rparr>,
                w2\<lparr>trace := trace w2 @ [Log (Err (''ERROR processing vehicle '' @ vid) e)]\<rparr>)
         | (Inl (SystemExit n), w2) \<Rightarrow> False"
proof -
  obtain evs where lb: "log_batch k cnt w = (Inr (), w\<lparr>trace := trace w @ evs\<rparr>)"
    using log_batch_run by blast
  define w1 where "w1 = w\<lparr>trace := trace w @ evs\<rparr>"
  obtain rb w2 where body: "vehicle_body E M (row_of cols (snd ir)) vid w1 = (rb, w2)"
    by (cases "vehicle_body E M (row_of cols (snd ir)) vid w1")
  have start: "process_row E M cols k ir cnt w =
      bnd (try_except
            (thn (vehicle_body E M (row_of cols (snd ir)) vid) (ret (successful_count cnt + 1)))
            (\<lambda>e. thn (logm (Err (''ERROR processing vehicle '' @ vid) e))
                 (ret (successful_count cnt))))
         (\<lambda>s. ret \<lparr> processed_count = processed_count cnt + 1, successful_count = s \<rparr>) w1"
    unfolding process_row_def using lb vid
    by (simp add: thn_def w1_def lift_def bnd_def ret_def)
  show ?thesis
  proof (cases rb)
    case (Inr u)
    then show ?thesis
      using start body lb
      by (simp add: w1_def [symmetric] bnd_def try_except_def thn_def ret_def)
  next
    case (Inl x)
    show ?thesis
    proof (cases x)
      case (SystemExit n)
      then show ?thesis
        using only_no_exit [OF vehicle_body_stage, of E M "row_of cols (snd ir)" vid w1 n w2] body Inl
        by simp
    next
      case (Exception e)
      then show ?thesis
        using start body lb Inl
        by (simp add: w1_def [symmetric] bnd_def try_except_def thn_def ret_def logm_apply)
    qed
  qed
qed

lemma process_row_step:
  assumes run: "process_row E M cols k ir cnt w = (Inr cnt1, w1)"
  shows "processed_count cnt1 = processed_count cnt + 1 \<and>
         (\<exists>evs. trace w1 = trace w @ evs \<and>
            successful_count cnt1 + length (filter row_error evs) = successful_count cnt + 1)"
proof -
  obtain vid where vid: "vehicle_id_of E (fst ir) (row_of cols (snd ir)) = Inr vid"
  proof (cases "vehicle_id_of E (fst ir) (row_of cols (snd ir))")
    case (Inl e)
    obtain evs where lb: "log_batch k cnt w = (Inr (), w\<lparr>trace := trace w @ evs\<rparr>)"
      using log_batch_run by blast
    have "fst (process_row E M cols k ir cnt w) = Inl (Exception e)"
      unfolding process_row_def using Inl lb
      by (simp add: thn_def lift_def raise_exc_def bnd_def)
    then show ?thesis using run by simp
  next
    case (Inr v)
    then show ?thesis using that by blast
  qed
  obtain evs0 where lb: "log_batch k cnt w = (Inr (), w\<lparr>trace := trace w @ evs0\<rparr>)"
    and q0: "list_all (quiet_ev 5) evs0"
    using log_batch_run by blast
  define w0 where "w0 = w\<lparr>trace := trace w @ evs0\<rparr>"
  obtain rb w2 where body: "vehicle_body E M (row_of cols (snd ir)) vid w0 = (rb, w2)"
    by (cases "vehicle_body E M (row_of cols (snd ir)) vid w0")
  from spec_trace [OF vehicle_body_stage body] obtain evsb where
    tb: "trace w2 = trace w0 @ evsb" and qb: "list_all (quiet_ev 5) evsb"
    by (auto simp: only_def)
  have nb: "filter row_error evs0 = []" "filter row_error evsb = []"
    using q0 qb by (simp_all add: quiet_no_row_errors)
  note cases = process_row_cases [OF vid, where M = M and k = k and cnt = cnt and w = w]
  show ?thesis
  proof (cases rb)
    case (Inr u)
    then have "process_row E M cols k ir cnt w =
        (Inr \<lparr>processed_count = processed_count cnt + 1, successful_count = successful_count cnt + 1\<rparr>, w2)"
      using cases body lb by (simp add: w0_def)
    then show ?thesis
      using run tb nb by (auto simp: w0_def)
  next
    case (Inl x)
    show ?thesis
    proof (cases x)
      case (SystemExit n)
      then show ?thesis using cases body lb Inl by (simp add: w0_def)
    next
      case (Exception e)
      then have "process_row E M cols k ir cnt w =
          (Inr \<lparr>processed_count = processed_count cnt + 1, successful_count = successful_count cnt\<rparr>,
           w2\<lparr>trace := trace w2 @ [Log (Err (''ERROR processing vehicle '' @ vid) e)]\<rparr>)"
        using cases body lb Inl by (simp add: w0_def)
      then show ?thesis
        using run tb nb by (auto simp: w0_def)
    qed
  qed
qed

lemma process_rows_count:
  "fold_prog (process_row E M cols k) irs cnt w = (Inr cnt', w') \<Longrightarrow>
   processed_count cnt' = processed_count cnt + length irs \<and>
   (\<exists>evs. trace w' = trace w @ evs \<and>
      successful_count cnt' + length (filter row_error evs) = successful_count cnt + length irs)"
proof (induction irs arbitrary: cnt w)
  case Nil
  then show ?case by (simp add: ret_def)
next
  case (Cons ir irs)
  from Cons.prems obtain cnt1 w1 where
    one: "process_row E M cols k ir cnt w = (Inr cnt1, w1)" and
    rest: "fold_prog (process_row E M cols k) irs cnt1 w1 = (Inr cnt', w')"
    by (auto simp: bnd_Inr)
  from process_row_step [OF one] obtain evs1 where
    p1: "processed_count cnt1 = processed_count cnt + 1" and
    t1: "trace w1 = trace w @ evs1" and
    s1: "successful_count cnt1 + length (filter row_error evs1) = successful_count cnt + 1"
    by blast
  from Cons.IH [OF rest] obtain evs2 where
    p2: "processed_count cnt' = processed_count cnt1 + length irs" and
    t2: "trace w' = trace w1 @ evs2" and
    s2: "successful_count cnt' + length (filter row_error evs2) = successful_count cnt1 + length irs"
    by blast
  have "trace w' = trace w @ (evs1 @ evs2)"
    using t1 t2 by simp
  moreover have "successful_count cnt' + length (filter row_error (evs1 @ evs2)) =
      successful_count cnt + length (ir # irs)"
    using s1 s2 by simp
  ultimately show ?case
    using p1 p2 by (intro conjI exI [of _ "evs1 @ evs2"]) simp_all
qed






subsection \<open>The sample\<close>

lemma sample_data_small:
  "length (rows d) \<le> MAX_VEHICLES \<Longrightarrow> sample_data E d = zip [0..<length (rows d)] (rows d)"
  by (simp add: sample_data_def Let_def)

lemma sample_data_large:
  "MAX_VEHICLES < length (rows d) \<Longrightarrow>
   sample_data E d = map (\<lambda>i. (i, rows d ! i)) (sample_idx E MAX_VEHICLES (length (rows d)))"
  by (simp add: sample_data_def Let_def)

lemma populate_vehicles_count:
  assumes "populate_vehicles E M d w = (Inr cnt, w')"
  shows "processed_count cnt = length (sample_data E d)"
proof -
  from assms obtain cnt1 w1 w0 where
    "fold_prog (process_row E M (columns d) (min MAX_VEHICLES (length (rows d)))) (sample_data E d)
       \<lparr>processed_count = 0, successful_count = 0\<rparr> w0 = (Inr cnt1, w1)"
    and "cnt = cnt1"
    unfolding populate_vehicles_def Let_def
    by (auto simp: thn_Inr bnd_Inr ret_def)
  with process_rows_count [of E M "columns d" _ "sample_data E d" _ w0 cnt1 w1]
  show ?thesis by simp
qed

text \<open>
  C3. The loop runs over \<open>min(1000, number of rows)\<close> rows: the whole frame, each row once
  and in its order, when it has at most 1000 rows; otherwise the 1000 different rows that
  \<^verbatim>\<open>data.sample\<close> draws. When the loop has run, \<^verbatim>\<open>processed_count\<close> is that number.
\<close>

theorem sample_size_min:
  assumes "sample_ok E"
  shows "length (sample_data E d) = min 1000 (length (rows d)) \<and>
         (length (rows d) \<le> 1000 \<longrightarrow> sample_data E d = zip [0..<length (rows d)] (rows d)) \<and>
         (1000 < length (rows d) \<longrightarrow>
            length (sample_data E d) = 1000 \<and> distinct (map fst (sample_data E d)) \<and>
            (\<forall>ir \<in> set (sample_data E d). fst ir < length (rows d) \<and> snd ir = rows d ! fst ir)) \<and>
         (populate_vehicles E M d w = (Inr cnt, w') \<longrightarrow>
            processed_count cnt = min 1000 (length (rows d)))"
proof -
  have len: "length (sample_data E d) = min 1000 (length (rows d))"
  proof (cases "length (rows d) \<le> MAX_VEHICLES")
    case True
    then show ?thesis by (simp add: sample_data_small MAX_VEHICLES_def)
  next
    case False
    then have "length (sample_idx E MAX_VEHICLES (length (rows d))) = MAX_VEHICLES"
      using assms by (simp add: sample_ok_def)
    then show ?thesis using False by (simp add: sample_data_large MAX_VEHICLES_def)
  qed
  have large: "distinct (map fst (sample_data E d)) \<and>
      (\<forall>ir \<in> set (sample_data E d). fst ir < length (rows d) \<and> snd ir = rows d ! fst ir)"
    if "1000 < length (rows d)"
  proof -
    from that have big: "MAX_VEHICLES < length (rows d)" by (simp add: MAX_VEHICLES_def)
    then have "distinct (sample_idx E MAX_VEHICLES (length (rows d)))"
      and "\<forall>i \<in> set (sample_idx E MAX_VEHICLES (length (rows d))). i < length (rows d)"
      using assms [unfolded sample_ok_def, rule_format, of MAX_VEHICLES "length (rows d)"]
      by simp_all
    then show ?thesis
      by (auto simp: sample_data_large [OF big] comp_def)
  qed
  show ?thesis
    using len large populate_vehicles_count [of E M d w cnt w']
    by (auto simp: sample_data_small MAX_VEHICLES_def)
qed

theorem sample_size_min_witness:
  "length (sample_data (quiet_env \<lparr>columns = [''ID''], rows = replicate 1001 [CNum 1]\<rparr>)
     \<lparr>columns = [''ID''], rows = replicate 1001 [CNum 1]\<rparr>) = 1000"
proof -
  have "sample_ok (quiet_env \<lparr>columns = [''ID''], rows = replicate 1001 [CNum 1]\<rparr>)"
    by (simp add: sample_ok_def quiet_env_def)
  from sample_size_min [OF this, of "\<lparr>columns = [''ID''], rows = replicate 1001 [CNum 1]\<rparr>"]
  show ?thesis by simp
qed

subsection \<open>What a row assigns\<close>

lemma onto_getattr_resolve: "onto_getattr w n = resolve (entities w) n"
  by (simp add: onto_getattr_def resolve_def)

lemma assigned_simps [simp]:
  "assigned v p [] = []"
  "assigned v p (ev # evs) = assigned_ev v p ev @ assigned v p evs"
  "assigned v p (evs @ evs') = assigned v p evs @ assigned v p evs'"
  by (simp_all add: assigned_def)

lemmas prog_defs = bnd_def thn_def ret_def raise_exc_def lift_def whenever_def logm_def emit_def
  call_def setattr_def getattr_onto_def

lemma assigns_ret: "assigns v p (ret ()) (\<lambda>es. [])"
  by (simp add: assigns_def ret_def)

lemma assigns_thn:
  assumes m: "assigns v p m f" and n: "assigns v p n g"
  shows "assigns v p (thn m n) (\<lambda>es. f es @ g es)"
  unfolding assigns_def
proof (intro allI impI)
  fix w r w'
  assume run: "thn m n w = (r, w')"
  obtain r1 w1 where mw: "m w = (r1, w1)" by (cases "m w")
  from m mw have e1: "entities w1 = entities w"
    and t1: "r1 = Inr () \<longrightarrow> (\<exists>evs. trace w1 = trace w @ evs \<and> assigned v p evs = f (entities w))"
    by (auto simp: assigns_def)
  show "entities w' = entities w \<and>
        (r = Inr () \<longrightarrow> (\<exists>evs. trace w' = trace w @ evs \<and> assigned v p evs = f (entities w) @ g (entities w)))"
  proof (cases r1)
    case (Inl e)
    then show ?thesis using run mw e1 by (auto simp: thn_def bnd_def)
  next
    case (Inr u)
    then have nw: "n w1 = (r, w')" using run mw by (simp add: thn_def bnd_def)
    from n nw have e2: "entities w' = entities w1"
      and t2: "r = Inr () \<longrightarrow> (\<exists>evs. trace w' = trace w1 @ evs \<and> assigned v p evs = g (entities w1))"
      by (auto simp: assigns_def)
    show ?thesis
    proof (intro conjI impI)
      show "entities w' = entities w" using e1 e2 by simp
    next
      assume "r = Inr ()"
      with t1 t2 Inr obtain evs1 evs2 where
        "trace w1 = trace w @ evs1" "assigned v p evs1 = f (entities w)"
        "trace w' = trace w1 @ evs2" "assigned v p evs2 = g (entities w1)"
        by auto
      then show "\<exists>evs. trace w' = trace w @ evs \<and> assigned v p evs = f (entities w) @ g (entities w)"
        using e1 by (intro exI [of _ "evs1 @ evs2"]) simp
    qed
  qed
qed

lemma assigns_steps_Nil: "assigns v p (run_steps []) (\<lambda>es. [])"
  by (simp add: assigns_ret)

lemma assigns_steps_Cons:
  "assigns v p m f \<Longrightarrow> assigns v p (run_steps ms) g \<Longrightarrow>
   assigns v p (run_steps (m # ms)) (\<lambda>es. f es @ g es)"
  by (simp add: assigns_thn)

lemma setattr_assigns:
  "assigns v p (setattr E i q x) (\<lambda>es. if i = v \<and> q = p then [x] else [])"
  by (auto simp: assigns_def setattr_def call_def split: option.splits)

lemma set_str_assigns: "assigns v p (set_str E v r c q) (\<lambda>es. str_val E r c q p)"
  by (auto simp: assigns_def set_str_def str_val_def prog_defs split: option.splits)

lemma notna_cellv: "notna r c \<Longrightarrow> \<not> isna (cellv r c)"
  by (auto simp: notna_def cellv_def split: option.splits)

lemma set_numeric_assigns: "assigns v p (set_numeric E v r c q) (\<lambda>es. num_val E r c q p)"
  by (auto simp: assigns_def set_numeric_def num_val_def safe_numeric_conversion_def prog_defs
      notna_cellv split: option.splits if_splits)

lemma set_year_assigns:
  "assigns v p (whenever b (bnd (lift (py_int c)) (\<lambda>y. setattr E v q (VInt y))))
     (\<lambda>es. if q = p \<and> b then (case py_int c of Inl e \<Rightarrow> [] | Inr y \<Rightarrow> [VInt y]) else [])"
  by (auto simp: assigns_def prog_defs split: option.splits sum.splits)

lemma set_electricity_assigns:
  "assigns v p (setattr E v q x) (\<lambda>es. if q = p then [x] else [])"
  by (auto simp: assigns_def setattr_def call_def split: option.splits)

lemma set_mapped_assigns: "assigns v p (set_mapped E v r c m q) (\<lambda>es. map_val r c m q p)"
  by (auto simp: assigns_def set_mapped_def map_val_def prog_defs split: option.splits)

lemma set_body_style_assigns:
  "assigns v p (set_body_style E v r m)
     (\<lambda>es. if ''hasBodyStyle'' = p \<and> notna r ''Vehicle Size Class''
           then [case map_of m (cellv r ''Vehicle Size Class'') of
                   None \<Rightarrow> resolve es ''Sedan'' | Some x \<Rightarrow> x]
           else [])"
  by (auto simp: assigns_def set_body_style_def prog_defs onto_getattr_resolve split: option.splits)

lemma set_boost_system_assigns:
  "assigns v p (set_boost_system E v r)
     (\<lambda>es. if ''hasBoostSystem'' = p then [resolve es (boost_name r)] else [])"
  by (auto simp: assigns_def set_boost_system_def boost_name_def prog_defs onto_getattr_resolve
      split: option.splits)

lemma set_market_segment_assigns:
  "assigns v p (set_market_segment E v r)
     (\<lambda>es. if ''hasMarketSegment'' = p
           then (if notna r ''You Save/Spend''
                 then (case get_market_segment (cellv r ''You Save/Spend'') of
                         Inl e \<Rightarrow> [] | Inr seg \<Rightarrow> [resolve es seg])
                 else [resolve es ''StandardMarket''])
           else [])"
  by (auto simp: assigns_def set_market_segment_def prog_defs onto_getattr_resolve
      split: option.splits sum.splits)

lemmas step_assigns =
  set_str_assigns set_numeric_assigns set_year_assigns set_electricity_assigns set_mapped_assigns
  set_body_style_assigns set_boost_system_assigns set_market_segment_assigns

text \<open>The \<^verbatim>\<open>try\<close> block assigns what the table says.\<close>

lemma vehicle_steps_assigns:
  "assigns v p (run_steps (vehicle_steps E M r v)) (row_assignments E M r p)"
  unfolding vehicle_steps_def row_assignments_def [abs_def]
  by (intro assigns_steps_Cons assigns_steps_Nil step_assigns)

lemma assignsD:
  "assigns v p m f \<Longrightarrow> m w = (Inr (), w') \<Longrightarrow>
   entities w' = entities w \<and> (\<exists>evs. trace w' = trace w @ evs \<and> assigned v p evs = f (entities w))"
  unfolding assigns_def by blast

lemma new_individual_Inr:
  "new_individual E c n w = (Inr x, w') \<Longrightarrow>
   x = VEnt n \<and> c \<in> set (entities w) \<and> entities w' = entities w @ [n] \<and>
   trace w' = trace w @ [Did (NewIndividual c n)]"
  by (auto simp: new_individual_def prog_defs add_entity_def onto_getattr_def
      split: pyval.splits option.splits if_splits)

lemma vehicle_body_assigns:
  assumes "vehicle_body E M r v w = (Inr (), w')"
  shows "entities w' = entities w @ [v] \<and>
         (\<exists>evs. trace w' = trace w @ evs \<and> assigned v p evs = row_assignments E M r p (entities w'))"
proof -
  from assms obtain x w1 where
    new: "new_individual E ''Vehicle'' v w = (Inr x, w1)" and
    steps: "run_steps (vehicle_steps E M r v) w1 = (Inr (), w')"
    by (auto simp: vehicle_body_def thn_Inr)
  from new_individual_Inr [OF new] have
    e1: "entities w1 = entities w @ [v]" and t1: "trace w1 = trace w @ [Did (NewIndividual ''Vehicle'' v)]"
    by simp_all
  from assignsD [OF vehicle_steps_assigns steps] obtain evs where
    e2: "entities w' = entities w1" and t2: "trace w' = trace w1 @ evs" and
    a2: "assigned v p evs = row_assignments E M r p (entities w1)"
    by blast
  show ?thesis
    using e1 e2 t1 t2 a2
    by (intro conjI exI [of _ "Did (NewIndividual ''Vehicle'' v) # evs"]) simp_all
qed

lemma row_assignments_fuel:
  "row_assignments E M r ''hasFuelType'' es =
     (if notna r ''Fuel Type''
      then (case map_of (fuel_type_map M) (cellv r ''Fuel Type'') of None \<Rightarrow> [] | Some x \<Rightarrow> [x])
      else [])"
  by (simp add: row_assignments_def str_val_def num_val_def map_val_def)

lemma row_assignments_manufacturer:
  "row_assignments E M r ''hasManufacturer'' es =
     (if notna r ''Make''
      then (case map_of (manufacturer_map M) (cellv r ''Make'') of None \<Rightarrow> [] | Some x \<Rightarrow> [x])
      else [])"
  by (simp add: row_assignments_def str_val_def num_val_def map_val_def)

lemma row_assignments_model_year:
  "row_assignments E M r ''hasModelYear'' es =
     (if notna r ''Year''
      then (case map_of (model_year_map M) (cellv r ''Year'') of None \<Rightarrow> [] | Some x \<Rightarrow> [x])
      else [])"
  by (simp add: row_assignments_def str_val_def num_val_def map_val_def)

lemma row_assignments_electricity:
  "row_assignments E M r ''hasElectricity'' es = [VBool (has_electricity E r)]"
  by (simp add: row_assignments_def str_val_def num_val_def map_val_def)

lemma row_assignments_boost:
  "row_assignments E M r ''hasBoostSystem'' es = [resolve es (boost_name r)]"
  by (simp add: row_assignments_def str_val_def num_val_def map_val_def)

lemma row_assignments_market:
  "row_assignments E M r ''hasMarketSegment'' es =
     (if notna r ''You Save/Spend''
      then (case get_market_segment (cellv r ''You Save/Spend'') of
              Inl e \<Rightarrow> [] | Inr seg \<Rightarrow> [resolve es seg])
      else [resolve es ''StandardMarket''])"
  by (simp add: row_assignments_def str_val_def num_val_def map_val_def)

subsection \<open>The lookup maps after the set-up\<close>

lemma convert_map_run:
  "convert_map T w = (Inr (map (\<lambda>(key, n). (CStr key, resolve (entities w) n)) T), w)"
  by (simp add: convert_map_def onto_getattr_resolve)

lemma map_of_dict_set: "map_of (dict_set d k x) = (map_of d)(k \<mapsto> x)"
  by (induction d) (auto simp: fun_eq_iff)

lemma dict_set_extends: "\<not> dict_has d k \<Longrightarrow> map_of d \<subseteq>\<^sub>m map_of (dict_set d k x)"
  by (auto simp: map_of_dict_set dict_has_def map_le_def)

lemma try_except_Inr:
  "try_except m h w = (Inr y, w'') \<longleftrightarrow>
     m w = (Inr y, w'') \<or> (\<exists>e w'. m w = (Inl (Exception e), w') \<and> h e w' = (Inr y, w''))"
  by (auto simp: try_except_def split: prod.splits sum.splits exc.splits)

lemma lift_Inr: "lift r w = (Inr y, w') \<longleftrightarrow> r = Inr y \<and> w' = w"
  by (cases r) (auto simp: lift_def ret_def raise_exc_def)

lemma ret_Inr: "ret x w = (Inr y, w') \<longleftrightarrow> y = x \<and> w' = w"
  by (auto simp: ret_def)

lemma logm_Inr: "logm l w = (Inr y, w') \<longleftrightarrow> w' = w\<lparr>trace := trace w @ [Log l]\<rparr>"
  by (auto simp: logm_apply)

lemmas run_simps = bnd_Inr thn_Inr try_except_Inr lift_Inr ret_Inr logm_Inr

lemma add_fuel_type_extends:
  "add_fuel_type E c m w = (Inr m', w') \<Longrightarrow> map_of m \<subseteq>\<^sub>m map_of m'"
  by (auto simp: add_fuel_type_def run_simps dict_set_extends split: if_splits)

lemma fold_extends:
  assumes step: "\<And>c m w m' w'. f c m w = (Inr m', w') \<Longrightarrow> map_of m \<subseteq>\<^sub>m map_of m'"
  shows "fold_prog f cs m w = (Inr m', w') \<Longrightarrow> map_of m \<subseteq>\<^sub>m map_of m'"
proof (induction cs arbitrary: m w)
  case Nil
  then show ?case by (simp add: ret_Inr)
next
  case (Cons c cs)
  from Cons.prems obtain m1 w1 where
    "f c m w = (Inr m1, w1)" "fold_prog f cs m1 w1 = (Inr m', w')"
    by (auto simp: bnd_Inr)
  then show ?case
    using step Cons.IH map_le_trans by blast
qed

lemma over_column_extends:
  assumes step: "\<And>c m w m' w'. f c m w = (Inr m', w') \<Longrightarrow> map_of m \<subseteq>\<^sub>m map_of m'"
  shows "over_column d column f m w = (Inr m', w') \<Longrightarrow> map_of m \<subseteq>\<^sub>m map_of m'"
  using fold_extends [of f, OF step]
  by (auto simp: over_column_def ret_Inr split: if_splits)

lemma bnd_InrE:
  assumes "bnd m f w = (Inr y, w'')"
  obtains x w' where "m w = (Inr x, w')" "f x w' = (Inr y, w'')"
  using assms by (auto simp: bnd_Inr)

lemma thn_InrE:
  assumes "thn m n w = (Inr y, w'')"
  obtains x w' where "m w = (Inr x, w')" "n w' = (Inr y, w'')"
  using assms by (auto simp: thn_Inr)

lemma grows_refl [simp]: "grows w w"
  by (simp add: grows_def)

lemma grows_trans: "grows w w' \<Longrightarrow> grows w' w'' \<Longrightarrow> grows w w''"
  by (auto simp: grows_def)

lemma spec_grows: "spec Q m \<Longrightarrow> m w = (r, w') \<Longrightarrow> grows w w'"
  using spec_trace [of Q m w r w'] by (auto simp: grows_def)

lemma over_column_grows:
  "(\<And>c s. spec (only P) (f c s)) \<Longrightarrow> over_column d column f s w = (r, w') \<Longrightarrow> grows w w'"
  by (rule spec_grows [OF over_column_only])

text \<open>The parts of \<^verbatim>\<open>setup_mappings\<close> the claims are about: the fuel types start from the
  table of the script, the manufacturers and the model years from the empty dictionary.\<close>

lemma setup_mappings_parts:
  assumes "setup_mappings E d w = (Inr M, w')"
  obtains wa wb wc wd where
    "entities wa = entities w" "grows w wa"
    "over_column d ''Fuel Type'' (add_fuel_type E)
       (map (\<lambda>(key, n). (CStr key, resolve (entities w) n)) FUEL_TYPE_MAP) wa =
       (Inr (fuel_type_map M), wb)"
    "grows wb wc"
    "create_manufacturers E d wc = (Inr (manufacturer_map M), wd)"
    "create_model_years E d wd = (Inr (model_year_map M), w')"
  using assms
  unfolding setup_mappings_def
  apply (elim thn_InrE bnd_InrE)
  apply (simp add: convert_map_run ret_Inr logm_Inr)
  subgoal premises prems for w0 fuel0 w1 w2 w3 w4 fuel wb size wg drive wh body wc manufacturer wd model_year
  proof -
    have "grows wb wg" "grows wg wh" "grows wh wc"
      using prems
      by (blast intro: over_column_grows add_size_class_stage add_drive_type_stage add_body_style_stage)+
    then have g: "grows wb wc"
      by (blast intro: grows_trans)
    show ?thesis
      by (rule prems(1) [of "w\<lparr>trace := trace w @ [Log (Info ''Setting up classification mappings...'')]\<rparr>" wb wc wd])
        (use prems g in \<open>simp_all add: grows_def\<close>)
  qed
  done

lemma map_of_convert:
  "map_of (map (\<lambda>(key, n). (CStr key, g n)) T) (CStr k) = map_option g (map_of T k)"
  by (induction T) auto

lemma static_fuel_types_kept:
  assumes run: "setup_mappings E d w = (Inr M, w')" and kn: "(k, n) \<in> set FUEL_TYPE_MAP"
  shows "map_of (fuel_type_map M) (CStr k) = Some (resolve (entities w) n)"
proof -
  from setup_mappings_parts [OF run] obtain wa wb where
    fuel: "over_column d ''Fuel Type'' (add_fuel_type E)
       (map (\<lambda>(key, n). (CStr key, resolve (entities w) n)) FUEL_TYPE_MAP) wa =
       (Inr (fuel_type_map M), wb)"
    by blast
  have "distinct (map fst FUEL_TYPE_MAP)"
    by (simp add: FUEL_TYPE_MAP_def)
  with kn have "map_of FUEL_TYPE_MAP k = Some n"
    by simp
  then have "map_of (map (\<lambda>(key, n). (CStr key, resolve (entities w) n)) FUEL_TYPE_MAP) (CStr k) =
      Some (resolve (entities w) n)"
    by (simp add: map_of_convert)
  with over_column_extends [OF add_fuel_type_extends fuel] show ?thesis
    by (auto simp: map_le_def dom_def)
qed

text \<open>
  C5. When the \<^verbatim>\<open>try\<close> block of a row returns, it has assigned \<^verbatim>\<open>hasFuelType\<close> of the vehicle
  exactly once, the value of the fuel-type map at the row's \<^verbatim>\<open>"Fuel Type"\<close>, when that cell is
  not null and is a key of the map, and not at all otherwise. The map that
  \<^verbatim>\<open>setup_mappings\<close> returns sends each key of \<^verbatim>\<open>FUEL_TYPE_MAP\<close> to the entity the ontology has
  under the name the table gives: \<^verbatim>\<open>"Gasoline or E85"\<close> to E85, \<^verbatim>\<open>"Regular Gas and Electricity"\<close>
  to Regular.
\<close>

theorem fuel_type_mapped:
  "(vehicle_body E M r v w = (Inr (), w') \<longrightarrow>
      (\<exists>evs. trace w' = trace w @ evs \<and>
         assigned v ''hasFuelType'' evs =
           (if notna r ''Fuel Type''
            then (case map_of (fuel_type_map M) (cellv r ''Fuel Type'') of None \<Rightarrow> [] | Some x \<Rightarrow> [x])
            else []))) \<and>
   (setup_mappings E d w0 = (Inr M, w1) \<longrightarrow>
      (\<forall>kn \<in> set FUEL_TYPE_MAP.
         map_of (fuel_type_map M) (CStr (fst kn)) = Some (resolve (entities w0) (snd kn))) \<and>
      map_of (fuel_type_map M) (CStr ''Gasoline or E85'') = Some (resolve (entities w0) ''E85'') \<and>
      map_of (fuel_type_map M) (CStr ''Regular Gas and Electricity'') =
        Some (resolve (entities w0) ''Regular''))"
proof (intro conjI impI)
  assume "vehicle_body E M r v w = (Inr (), w')"
  from vehicle_body_assigns [OF this, of "''hasFuelType''"]
  show "\<exists>evs. trace w' = trace w @ evs \<and>
         assigned v ''hasFuelType'' evs =
           (if notna r ''Fuel Type''
            then (case map_of (fuel_type_map M) (cellv r ''Fuel Type'') of None \<Rightarrow> [] | Some x \<Rightarrow> [x])
            else [])"
    by (simp add: row_assignments_fuel)
next
  assume run: "setup_mappings E d w0 = (Inr M, w1)"
  show "\<forall>kn \<in> set FUEL_TYPE_MAP.
         map_of (fuel_type_map M) (CStr (fst kn)) = Some (resolve (entities w0) (snd kn))"
    using static_fuel_types_kept [OF run] by auto
  show "map_of (fuel_type_map M) (CStr ''Gasoline or E85'') = Some (resolve (entities w0) ''E85'')"
    by (rule static_fuel_types_kept [OF run]) (simp add: FUEL_TYPE_MAP_def)
  show "map_of (fuel_type_map M) (CStr ''Regular Gas and Electricity'') =
        Some (resolve (entities w0) ''Regular'')"
    by (rule static_fuel_types_kept [OF run]) (simp add: FUEL_TYPE_MAP_def)
qed

lemma e85_body_returns:
  "fst (vehicle_body (quiet_env e85_frame) e85_maps
     (row_of [''ID'', ''Fuel Type''] [CNum 1, CStr ''Gasoline or E85'']) ''Unknown_Unknown__00001''
     loaded_world) = Inr ()"
  by code_simp

lemma e85_setup_returns:
  "\<not> isl (fst (setup_mappings (quiet_env e85_frame) e85_frame loaded_world))"
  by code_simp

theorem fuel_type_mapped_witness:
  "(\<exists>w'. vehicle_body (quiet_env e85_frame) e85_maps
       (row_of [''ID'', ''Fuel Type''] [CNum 1, CStr ''Gasoline or E85'']) ''Unknown_Unknown__00001''
       loaded_world = (Inr (), w') \<and>
     (\<exists>evs. trace w' = trace loaded_world @ evs \<and>
        assigned ''Unknown_Unknown__00001'' ''hasFuelType'' evs = [VEnt ''E85''])) \<and>
   (\<exists>M w1. setup_mappings (quiet_env e85_frame) e85_frame loaded_world = (Inr M, w1) \<and>
      map_of (fuel_type_map M) (CStr ''Gasoline or E85'') = Some (VEnt ''E85''))"
proof (rule conjI)
  obtain w' where body: "vehicle_body (quiet_env e85_frame) e85_maps
       (row_of [''ID'', ''Fuel Type''] [CNum 1, CStr ''Gasoline or E85'']) ''Unknown_Unknown__00001''
       loaded_world = (Inr (), w')"
    using e85_body_returns by (metis prod.collapse)
  from fuel_type_mapped [where E = "quiet_env e85_frame" and M = e85_maps
      and r = "row_of [''ID'', ''Fuel Type''] [CNum 1, CStr ''Gasoline or E85'']"
      and v = "''Unknown_Unknown__00001''" and w = loaded_world and w' = w'] body
  have "\<exists>evs. trace w' = trace loaded_world @ evs \<and>
        assigned ''Unknown_Unknown__00001'' ''hasFuelType'' evs = [VEnt ''E85'']"
    by (simp add: notna_def cellv_def row_of_def isna_def e85_maps_def no_maps_def)
  with body show "\<exists>w'. vehicle_body (quiet_env e85_frame) e85_maps
       (row_of [''ID'', ''Fuel Type''] [CNum 1, CStr ''Gasoline or E85'']) ''Unknown_Unknown__00001''
       loaded_world = (Inr (), w') \<and>
     (\<exists>evs. trace w' = trace loaded_world @ evs \<and>
        assigned ''Unknown_Unknown__00001'' ''hasFuelType'' evs = [VEnt ''E85''])"
    by blast
next
  obtain M w1 where run: "setup_mappings (quiet_env e85_frame) e85_frame loaded_world = (Inr M, w1)"
    using e85_setup_returns
    by (cases "setup_mappings (quiet_env e85_frame) e85_frame loaded_world";
        cases "fst (setup_mappings (quiet_env e85_frame) e85_frame loaded_world)") auto
  from fuel_type_mapped [where E = "quiet_env e85_frame" and M = M and d = e85_frame
      and ?w0.0 = loaded_world and ?w1.0 = w1] run
  have "map_of (fuel_type_map M) (CStr ''Gasoline or E85'') = Some (VEnt ''E85'')"
    by (simp add: resolve_def loaded_world_def quiet_env_def)
  with run show "\<exists>M w1. setup_mappings (quiet_env e85_frame) e85_frame loaded_world = (Inr M, w1) \<and>
      map_of (fuel_type_map M) (CStr ''Gasoline or E85'') = Some (VEnt ''E85'')"
    by blast
qed

subsection \<open>The properties every vehicle gets\<close>

lemma run_steps_each:
  "run_steps ms w = (Inr (), w') \<Longrightarrow> m \<in> set ms \<Longrightarrow> \<exists>w1 w2. m w1 = (Inr (), w2)"
proof (induction ms arbitrary: w)
  case Nil
  then show ?case by simp
next
  case (Cons a ms)
  from Cons.prems(1) obtain w1 where a: "a w = (Inr (), w1)" and rest: "run_steps ms w1 = (Inr (), w')"
    by (auto simp: thn_Inr)
  show ?case
  proof (cases "m = a")
    case True
    then show ?thesis using a by blast
  next
    case False
    then show ?thesis using Cons.IH [OF rest] Cons.prems(2) by simp
  qed
qed

lemma set_market_segment_returns:
  "set_market_segment E v r w1 = (Inr (), w2) \<Longrightarrow> notna r ''You Save/Spend'' \<Longrightarrow>
   \<exists>seg. get_market_segment (cellv r ''You Save/Spend'') = Inr seg"
  by (auto simp: set_market_segment_def run_simps)

lemma vehicle_body_market_segment:
  assumes "vehicle_body E M r v w = (Inr (), w')" and "notna r ''You Save/Spend''"
  shows "\<exists>seg. get_market_segment (cellv r ''You Save/Spend'') = Inr seg"
proof -
  from assms(1) obtain w1 where "run_steps (vehicle_steps E M r v) w1 = (Inr (), w')"
    by (auto simp: vehicle_body_def thn_Inr)
  moreover have "set_market_segment E v r \<in> set (vehicle_steps E M r v)"
    by (simp add: vehicle_steps_def)
  ultimately obtain wa wb where "set_market_segment E v r wa = (Inr (), wb)"
    using run_steps_each by blast
  then show ?thesis
    using assms(2) by (rule set_market_segment_returns)
qed

text \<open>
  C10. When the \<^verbatim>\<open>try\<close> block of a row returns, the vehicle has been assigned, each exactly
  once: \<^verbatim>\<open>hasElectricity\<close>, a boolean; \<^verbatim>\<open>hasBoostSystem\<close>, the ontology's Turbocharger when
  \<^verbatim>\<open>"T Charger"\<close> is \<^verbatim>\<open>"T"\<close>, else its Supercharger when \<^verbatim>\<open>"S Charger"\<close> is \<^verbatim>\<open>"S"\<close>, else its
  NaturallyAspirated; \<^verbatim>\<open>hasMarketSegment\<close>, the ontology's StandardMarket when
  \<^verbatim>\<open>"You Save/Spend"\<close> is absent or null, else the segment \<^verbatim>\<open>get_market_segment\<close> returns.
  (The value is what the ontology resolves the name to, among its names and the vehicle's.)
\<close>

theorem defaults_always_set:
  "vehicle_body E M r v w = (Inr (), w') \<longrightarrow>
     entities w' = entities w @ [v] \<and>
     (\<exists>evs. trace w' = trace w @ evs \<and>
        assigned v ''hasElectricity'' evs = [VBool (has_electricity E r)] \<and>
        assigned v ''hasBoostSystem'' evs =
          [resolve (entities w')
             (if notna r ''T Charger'' \<and> cellv r ''T Charger'' = CStr ''T'' then ''Turbocharger''
              else if notna r ''S Charger'' \<and> cellv r ''S Charger'' = CStr ''S'' then ''Supercharger''
              else ''NaturallyAspirated'')] \<and>
        (\<exists>seg. assigned v ''hasMarketSegment'' evs = [resolve (entities w') seg] \<and>
           (if notna r ''You Save/Spend''
            then get_market_segment (cellv r ''You Save/Spend'') = Inr seg
            else seg = ''StandardMarket'')))"
proof
  assume run: "vehicle_body E M r v w = (Inr (), w')"
  from vehicle_body_assigns [OF run, of "''hasElectricity''"] obtain evs where
    ents: "entities w' = entities w @ [v]" and tr: "trace w' = trace w @ evs" and
    el: "assigned v ''hasElectricity'' evs = [VBool (has_electricity E r)]"
    by (auto simp: row_assignments_electricity)
  from vehicle_body_assigns [OF run, of "''hasBoostSystem''"] tr have
    bo: "assigned v ''hasBoostSystem'' evs = [resolve (entities w') (boost_name r)]"
    by (auto simp: row_assignments_boost)
  from vehicle_body_assigns [OF run, of "''hasMarketSegment''"] tr have
    ma: "assigned v ''hasMarketSegment'' evs =
      (if notna r ''You Save/Spend''
       then (case get_market_segment (cellv r ''You Save/Spend'') of
              Inl e \<Rightarrow> [] | Inr seg \<Rightarrow> [resolve (entities w') seg])
       else [resolve (entities w') ''StandardMarket''])"
    by (auto simp: row_assignments_market)
  have "\<exists>seg. assigned v ''hasMarketSegment'' evs = [resolve (entities w') seg] \<and>
           (if notna r ''You Save/Spend''
            then get_market_segment (cellv r ''You Save/Spend'') = Inr seg
            else seg = ''StandardMarket'')"
  proof (cases "notna r ''You Save/Spend''")
    case True
    from vehicle_body_market_segment [OF run True] obtain seg where
      "get_market_segment (cellv r ''You Save/Spend'') = Inr seg" by blast
    then show ?thesis using ma True by auto
  next
    case False
    then show ?thesis using ma by auto
  qed
  then show "entities w' = entities w @ [v] \<and>
     (\<exists>evs. trace w' = trace w @ evs \<and>
        assigned v ''hasElectricity'' evs = [VBool (has_electricity E r)] \<and>
        assigned v ''hasBoostSystem'' evs =
          [resolve (entities w')
             (if notna r ''T Charger'' \<and> cellv r ''T Charger'' = CStr ''T'' then ''Turbocharger''
              else if notna r ''S Charger'' \<and> cellv r ''S Charger'' = CStr ''S'' then ''Supercharger''
              else ''NaturallyAspirated'')] \<and>
        (\<exists>seg. assigned v ''hasMarketSegment'' evs = [resolve (entities w') seg] \<and>
           (if notna r ''You Save/Spend''
            then get_market_segment (cellv r ''You Save/Spend'') = Inr seg
            else seg = ''StandardMarket'')))"
    using ents tr el bo by (auto simp: boost_name_def)
qed

lemma bare_body_returns:
  "fst (vehicle_body (quiet_env two_rows) no_maps bare_row ''Unknown_Unknown__00001'' loaded_world) = Inr ()"
  by code_simp

theorem defaults_always_set_witness:
  "\<exists>w'. vehicle_body (quiet_env two_rows) no_maps bare_row ''Unknown_Unknown__00001'' loaded_world =
       (Inr (), w') \<and>
     (\<exists>evs. trace w' = trace loaded_world @ evs \<and>
        assigned ''Unknown_Unknown__00001'' ''hasElectricity'' evs = [VBool False] \<and>
        assigned ''Unknown_Unknown__00001'' ''hasBoostSystem'' evs = [VEnt ''NaturallyAspirated''] \<and>
        assigned ''Unknown_Unknown__00001'' ''hasMarketSegment'' evs = [VEnt ''StandardMarket''])"
proof -
  obtain w' where body:
    "vehicle_body (quiet_env two_rows) no_maps bare_row ''Unknown_Unknown__00001'' loaded_world = (Inr (), w')"
    using bare_body_returns by (metis prod.collapse)
  have row: "\<not> notna bare_row ''T Charger''" "\<not> notna bare_row ''S Charger''"
    "\<not> notna bare_row ''You Save/Spend''" "\<not> notna bare_row ''Fuel Type''"
    "\<not> notna bare_row ''Electric motor''"
    by (simp_all add: bare_row_def notna_def row_of_def)
  from defaults_always_set [where E = "quiet_env two_rows" and M = no_maps and r = bare_row
      and v = "''Unknown_Unknown__00001''" and w = loaded_world and w' = w'] body
  have "\<exists>evs. trace w' = trace loaded_world @ evs \<and>
        assigned ''Unknown_Unknown__00001'' ''hasElectricity'' evs = [VBool False] \<and>
        assigned ''Unknown_Unknown__00001'' ''hasBoostSystem'' evs = [VEnt ''NaturallyAspirated''] \<and>
        assigned ''Unknown_Unknown__00001'' ''hasMarketSegment'' evs = [VEnt ''StandardMarket'']"
    by (auto simp: row has_electricity_def resolve_def loaded_world_def quiet_env_def)
  with body show ?thesis by blast
qed

subsection \<open>Manufacturers and model years\<close>

lemma try_new_individual:
  assumes "try_except (bnd (new_individual E cls n) (\<lambda>x. ret (dict_set m c x)))
             (\<lambda>e. thn (logm (Err msg e)) (ret m)) w = (Inr m', w')"
  shows "\<exists>evs. trace w' = trace w @ evs \<and>
           ((Did (NewIndividual cls n) \<in> set evs \<and> m' = dict_set m c (VEnt n)) \<or>
            ((\<exists>e. Log (Err msg e) \<in> set evs) \<and> m' = m))"
  using assms unfolding try_except_Inr
proof (elim disjE exE conjE)
  assume "bnd (new_individual E cls n) (\<lambda>x. ret (dict_set m c x)) w = (Inr m', w')"
  then obtain x where new: "new_individual E cls n w = (Inr x, w')" and m': "m' = dict_set m c x"
    by (auto simp: run_simps)
  from new_individual_Inr [OF new] m' show ?thesis
    by (intro exI [of _ "[Did (NewIndividual cls n)]"]) simp
next
  fix e w1
  assume fail: "bnd (new_individual E cls n) (\<lambda>x. ret (dict_set m c x)) w = (Inl (Exception e), w1)"
    and handler: "thn (logm (Err msg e)) (ret m) w1 = (Inr m', w')"
  have "spec (only (\<lambda>ev. True)) (bnd (new_individual E cls n) (\<lambda>x. ret (dict_set m c x)))"
    by (intro only_rules only_new_individual) simp_all
  from spec_grows [OF this fail] obtain evs0 where "trace w1 = trace w @ evs0"
    by (auto simp: grows_def)
  moreover from handler have "w' = w1\<lparr>trace := trace w1 @ [Log (Err msg e)]\<rparr>" "m' = m"
    by (auto simp: run_simps)
  ultimately show ?thesis
    by (intro exI [of _ "evs0 @ [Log (Err msg e)]"]) auto
qed

text \<open>One pass of each of the two loops: the value is skipped, or its individual is created and
  mapped, or the creation raised and the exception is logged.\<close>

lemma add_manufacturer_step:
  assumes "add_manufacturer E c m w = (Inr m', w')"
  shows "\<exists>evs. trace w' = trace w @ evs \<and>
     (if truthy c \<and> \<not> isna c
      then \<exists>n. create_valid_id E c = Inr n \<and>
             ((Did (NewIndividual ''Manufacturer'' n) \<in> set evs \<and> m' = dict_set m c (VEnt n)) \<or>
              ((\<exists>e. Log (Err (''Error adding manufacturer '' @ n) e) \<in> set evs) \<and> m' = m))
      else m' = m)"
proof (cases "truthy c \<and> \<not> isna c")
  case False
  then show ?thesis using assms by (auto simp: add_manufacturer_def ret_Inr)
next
  case True
  with assms obtain n m1 w1 where n: "create_valid_id E c = Inr n" and
    tr: "try_except (bnd (new_individual E ''Manufacturer'' n) (\<lambda>x. ret (dict_set m c x)))
           (\<lambda>e. thn (logm (Err (''Error adding manufacturer '' @ n) e)) (ret m)) w = (Inr m1, w1)" and
    fin: "thn (whenever (length m1 mod 20 = 0)
               (logm (Info (''Created '' @ str_nat (length m1) @ '' manufacturers...''))))
            (ret m1) w1 = (Inr m', w')"
    unfolding add_manufacturer_def by (auto simp: bnd_Inr lift_Inr)
  from try_new_individual [OF tr] obtain evs1 where
    t1: "trace w1 = trace w @ evs1" and
    o1: "(Did (NewIndividual ''Manufacturer'' n) \<in> set evs1 \<and> m1 = dict_set m c (VEnt n)) \<or>
         ((\<exists>e. Log (Err (''Error adding manufacturer '' @ n) e) \<in> set evs1) \<and> m1 = m)"
    by blast
  from fin obtain evs2 where "trace w' = trace w1 @ evs2" "m' = m1"
    by (auto simp: run_simps whenever_def split: if_splits)
  with t1 o1 n True show ?thesis
    by (intro exI [of _ "evs1 @ evs2"]) auto
qed

lemma add_model_year_step:
  assumes "add_model_year E c m w = (Inr m', w')"
  shows "\<exists>evs. trace w' = trace w @ evs \<and>
     (if truthy c \<and> \<not> isna c
      then \<exists>y. py_int c = Inr y \<and>
             ((Did (NewIndividual ''ModelYear'' (''Year_'' @ str_int y)) \<in> set evs \<and>
               m' = dict_set m c (VEnt (''Year_'' @ str_int y))) \<or>
              ((\<exists>e. Log (Err (''Error adding model year '' @ (''Year_'' @ str_int y)) e) \<in> set evs) \<and> m' = m))
      else m' = m)"
proof (cases "truthy c \<and> \<not> isna c")
  case False
  then show ?thesis using assms by (auto simp: add_model_year_def ret_Inr)
next
  case True
  with assms obtain y where y: "py_int c = Inr y" and
    tr: "try_except (bnd (new_individual E ''ModelYear'' (''Year_'' @ str_int y)) (\<lambda>x. ret (dict_set m c x)))
           (\<lambda>e. thn (logm (Err (''Error adding model year '' @ (''Year_'' @ str_int y)) e)) (ret m)) w =
         (Inr m', w')"
    unfolding add_model_year_def by (auto simp: bnd_Inr lift_Inr)
  from try_new_individual [OF tr] y True show ?thesis
    by auto
qed

text \<open>The loop over the different values of a column, from a dictionary that has none of them.\<close>

lemma fold_created:
  assumes step: "\<And>c m w m' w'. f c m w = (Inr m', w') \<Longrightarrow>
      \<exists>evs. trace w' = trace w @ evs \<and>
        (if truthy c \<and> \<not> isna c
         then \<exists>n. idf c = Inr n \<and>
                ((Did (NewIndividual cls (name n)) \<in> set evs \<and> m' = dict_set m c (VEnt (name n))) \<or>
                 ((\<exists>e. Log (Err (msg @ name n) e) \<in> set evs) \<and> m' = m))
         else m' = m)"
  shows "fold_prog f cs m w = (Inr m', w') \<Longrightarrow> distinct cs \<Longrightarrow> \<forall>c \<in> set cs. map_of m c = None \<Longrightarrow>
     \<exists>evs. trace w' = trace w @ evs \<and>
       (\<forall>c \<in> set cs. truthy c \<and> \<not> isna c \<longrightarrow>
          (\<exists>n. idf c = Inr n \<and>
             ((Did (NewIndividual cls (name n)) \<in> set evs \<and> map_of m' c = Some (VEnt (name n))) \<or>
              ((\<exists>e. Log (Err (msg @ name n) e) \<in> set evs) \<and> map_of m' c = None)))) \<and>
       (\<forall>k. k \<notin> set cs \<longrightarrow> map_of m' k = map_of m k)"
proof (induction cs arbitrary: m w)
  case Nil
  then show ?case by (simp add: ret_Inr)
next
  case (Cons c cs)
  from Cons.prems(1) obtain m1 w1 where
    one: "f c m w = (Inr m1, w1)" and rest: "fold_prog f cs m1 w1 = (Inr m', w')"
    by (auto simp: bnd_Inr)
  from step [OF one] obtain evs1 where
    t1: "trace w1 = trace w @ evs1" and
    o1: "if truthy c \<and> \<not> isna c
         then \<exists>n. idf c = Inr n \<and>
                ((Did (NewIndividual cls (name n)) \<in> set evs1 \<and> m1 = dict_set m c (VEnt (name n))) \<or>
                 ((\<exists>e. Log (Err (msg @ name n) e) \<in> set evs1) \<and> m1 = m))
         else m1 = m"
    by blast
  have c_new: "c \<notin> set cs" and dist: "distinct cs" and none: "map_of m c = None"
    using Cons.prems by simp_all
  have other: "map_of m1 k = map_of m k" if "k \<noteq> c" for k
    using o1 that by (auto simp: map_of_dict_set split: if_splits)
  have "\<forall>c' \<in> set cs. map_of m1 c' = None"
  proof
    fix c'
    assume c': "c' \<in> set cs"
    with c_new have "c' \<noteq> c" by blast
    then show "map_of m1 c' = None"
      using other [of c'] Cons.prems(3) c' by simp
  qed
  from Cons.IH [OF rest dist this] obtain evs2 where
    t2: "trace w' = trace w1 @ evs2" and
    o2: "\<forall>c \<in> set cs. truthy c \<and> \<not> isna c \<longrightarrow>
          (\<exists>n. idf c = Inr n \<and>
             ((Did (NewIndividual cls (name n)) \<in> set evs2 \<and> map_of m' c = Some (VEnt (name n))) \<or>
              ((\<exists>e. Log (Err (msg @ name n) e) \<in> set evs2) \<and> map_of m' c = None)))" and
    k2: "\<forall>k. k \<notin> set cs \<longrightarrow> map_of m' k = map_of m1 k"
    by blast
  have head: "\<exists>n. idf c = Inr n \<and>
             ((Did (NewIndividual cls (name n)) \<in> set (evs1 @ evs2) \<and> map_of m' c = Some (VEnt (name n))) \<or>
              ((\<exists>e. Log (Err (msg @ name n) e) \<in> set (evs1 @ evs2)) \<and> map_of m' c = None))"
    if "truthy c \<and> \<not> isna c"
  proof -
    from o1 that obtain n where n: "idf c = Inr n" and
      d: "(Did (NewIndividual cls (name n)) \<in> set evs1 \<and> m1 = dict_set m c (VEnt (name n))) \<or>
          ((\<exists>e. Log (Err (msg @ name n) e) \<in> set evs1) \<and> m1 = m)"
      by auto
    have "map_of m' c = map_of m1 c" using k2 c_new by simp
    with d n none show ?thesis
      by (auto simp: map_of_dict_set)
  qed
  have tail: "\<forall>c' \<in> set cs. truthy c' \<and> \<not> isna c' \<longrightarrow>
          (\<exists>n. idf c' = Inr n \<and>
             ((Did (NewIndividual cls (name n)) \<in> set (evs1 @ evs2) \<and> map_of m' c' = Some (VEnt (name n))) \<or>
              ((\<exists>e. Log (Err (msg @ name n) e) \<in> set (evs1 @ evs2)) \<and> map_of m' c' = None)))"
    using o2 by fastforce
  have keep: "\<forall>k. k \<notin> set (c # cs) \<longrightarrow> map_of m' k = map_of m k"
    using k2 other by simp
  show ?case
    using t1 t2 head tail keep
    by (intro exI [of _ "evs1 @ evs2"]) simp
qed

lemma dropna_unique_set: "set (dropna_unique vs) = {c \<in> set vs. \<not> isna c}"
  by (auto simp: dropna_unique_def)

lemma dropna_unique_distinct: "distinct (dropna_unique vs)"
  by (simp add: dropna_unique_def)

lemma column_values_absent:
  "column \<notin> set (columns d) \<Longrightarrow> c \<in> set (column_values d column) \<Longrightarrow> isna c"
proof -
  assume absent: "column \<notin> set (columns d)" and "c \<in> set (column_values d column)"
  then obtain cells where "c = cellv (row_of (columns d) cells) column"
    by (auto simp: column_values_def)
  moreover have "row_of (columns d) cells column = None"
    using absent by (auto simp: row_of_def map_of_eq_None_iff dest: set_zip_leftD)
  ultimately show "isna c"
    by (simp add: cellv_def isna_def)
qed

lemma create_manufacturers_created:
  assumes "create_manufacturers E d w = (Inr m, w')"
  shows "\<exists>evs. trace w' = trace w @ evs \<and>
     (\<forall>c \<in> set (column_values d ''Make''). \<not> isna c \<and> truthy c \<longrightarrow>
        (\<exists>n. create_valid_id E c = Inr n \<and>
           ((Did (NewIndividual ''Manufacturer'' n) \<in> set evs \<and> map_of m c = Some (VEnt n)) \<or>
            ((\<exists>e. Log (Err (''Error adding manufacturer '' @ n) e) \<in> set evs) \<and> map_of m c = None))))"
proof (cases "''Make'' \<in> set (columns d)")
  case False
  from spec_grows [OF create_manufacturers_stage assms] obtain evs where "trace w' = trace w @ evs"
    by (auto simp: grows_def)
  then show ?thesis
    using column_values_absent [OF False] by blast
next
  case True
  define w0 where "w0 = w\<lparr>trace := trace w @ [Log (Info ''Creating manufacturer individuals...'')]\<rparr>"
  from assms True obtain w1 where
    loop: "fold_prog (add_manufacturer E) (dropna_unique (column_values d ''Make'')) [] w0 = (Inr m, w1)" and
    fin: "w' = w1\<lparr>trace := trace w1 @ [Log (Info (''Created all '' @ str_nat (length m) @ '' manufacturers''))]\<rparr>"
    unfolding create_manufacturers_def over_column_def w0_def
    by (auto simp: run_simps)
  from fold_created [where f = "add_manufacturer E" and idf = "create_valid_id E" and name = "\<lambda>n. n"
      and cls = "''Manufacturer''" and msg = "''Error adding manufacturer ''",
      OF add_manufacturer_step loop dropna_unique_distinct]
  obtain evs where
    t: "trace w1 = trace w0 @ evs" and
    o: "\<forall>c \<in> set (dropna_unique (column_values d ''Make'')). truthy c \<and> \<not> isna c \<longrightarrow>
          (\<exists>n. create_valid_id E c = Inr n \<and>
             ((Did (NewIndividual ''Manufacturer'' n) \<in> set evs \<and> map_of m c = Some (VEnt n)) \<or>
              ((\<exists>e. Log (Err (''Error adding manufacturer '' @ n) e) \<in> set evs) \<and> map_of m c = None)))"
    by auto
  have "trace w' = trace w @ (Log (Info ''Creating manufacturer individuals...'') # evs @
      [Log (Info (''Created all '' @ str_nat (length m) @ '' manufacturers''))])"
    using t fin by (simp add: w0_def)
  moreover have "\<forall>c \<in> set (column_values d ''Make''). \<not> isna c \<and> truthy c \<longrightarrow>
        (\<exists>n. create_valid_id E c = Inr n \<and>
           ((Did (NewIndividual ''Manufacturer'' n) \<in> set (Log (Info ''Creating manufacturer individuals...'') # evs @
                [Log (Info (''Created all '' @ str_nat (length m) @ '' manufacturers''))]) \<and>
             map_of m c = Some (VEnt n)) \<or>
            ((\<exists>e. Log (Err (''Error adding manufacturer '' @ n) e) \<in> set (Log (Info ''Creating manufacturer individuals...'') # evs @
                [Log (Info (''Created all '' @ str_nat (length m) @ '' manufacturers''))])) \<and>
             map_of m c = None)))"
    using o by (fastforce simp: dropna_unique_set)
  ultimately show ?thesis by blast
qed

lemma create_model_years_created:
  assumes "create_model_years E d w = (Inr m, w')"
  shows "\<exists>evs. trace w' = trace w @ evs \<and>
     (\<forall>c \<in> set (column_values d ''Year''). \<not> isna c \<and> truthy c \<longrightarrow>
        (\<exists>y. py_int c = Inr y \<and>
           ((Did (NewIndividual ''ModelYear'' (''Year_'' @ str_int y)) \<in> set evs \<and>
             map_of m c = Some (VEnt (''Year_'' @ str_int y))) \<or>
            ((\<exists>e. Log (Err (''Error adding model year '' @ (''Year_'' @ str_int y)) e) \<in> set evs) \<and>
             map_of m c = None))))"
proof (cases "''Year'' \<in> set (columns d)")
  case False
  from spec_grows [OF create_model_years_stage assms] obtain evs where "trace w' = trace w @ evs"
    by (auto simp: grows_def)
  then show ?thesis
    using column_values_absent [OF False] by blast
next
  case True
  define w0 where "w0 = w\<lparr>trace := trace w @ [Log (Info ''Creating model year individuals...'')]\<rparr>"
  from assms True obtain w1 where
    loop: "fold_prog (add_model_year E) (dropna_unique (column_values d ''Year'')) [] w0 = (Inr m, w1)" and
    fin: "w' = w1\<lparr>trace := trace w1 @ [Log (Info (''Created '' @ str_nat (length m) @ '' model years''))]\<rparr>"
    unfolding create_model_years_def over_column_def w0_def
    by (auto simp: run_simps)
  have "\<exists>evs. trace w1 = trace w0 @ evs \<and>
       (\<forall>c \<in> set (dropna_unique (column_values d ''Year'')). truthy c \<and> \<not> isna c \<longrightarrow>
          (\<exists>y. py_int c = Inr y \<and>
             ((Did (NewIndividual ''ModelYear'' (''Year_'' @ str_int y)) \<in> set evs \<and>
               map_of m c = Some (VEnt (''Year_'' @ str_int y))) \<or>
              ((\<exists>e. Log (Err (''Error adding model year '' @ (''Year_'' @ str_int y)) e) \<in> set evs) \<and>
               map_of m c = None)))) \<and>
       (\<forall>k. k \<notin> set (dropna_unique (column_values d ''Year'')) \<longrightarrow> map_of m k = map_of [] k)"
    by (rule fold_created [where f = "add_model_year E" and idf = "py_int"
          and name = "\<lambda>y. ''Year_'' @ str_int y" and cls = "''ModelYear''"
          and msg = "''Error adding model year ''", OF _ loop dropna_unique_distinct])
       (erule add_model_year_step, simp)
  then obtain evs where
    t: "trace w1 = trace w0 @ evs" and
    o: "\<forall>c \<in> set (dropna_unique (column_values d ''Year'')). truthy c \<and> \<not> isna c \<longrightarrow>
          (\<exists>y. py_int c = Inr y \<and>
             ((Did (NewIndividual ''ModelYear'' (''Year_'' @ str_int y)) \<in> set evs \<and>
               map_of m c = Some (VEnt (''Year_'' @ str_int y))) \<or>
              ((\<exists>e. Log (Err (''Error adding model year '' @ (''Year_'' @ str_int y)) e) \<in> set evs) \<and>
               map_of m c = None)))"
    by blast
  have "trace w' = trace w @ (Log (Info ''Creating model year individuals...'') # evs @
      [Log (Info (''Created '' @ str_nat (length m) @ '' model years''))])"
    using t fin by (simp add: w0_def)
  moreover have "\<forall>c \<in> set (column_values d ''Year''). \<not> isna c \<and> truthy c \<longrightarrow>
        (\<exists>y. py_int c = Inr y \<and>
           ((Did (NewIndividual ''ModelYear'' (''Year_'' @ str_int y)) \<in> set (Log (Info ''Creating model year individuals...'') # evs @
                [Log (Info (''Created '' @ str_nat (length m) @ '' model years''))]) \<and>
             map_of m c = Some (VEnt (''Year_'' @ str_int y))) \<or>
            ((\<exists>e. Log (Err (''Error adding model year '' @ (''Year_'' @ str_int y)) e) \<in> set (Log (Info ''Creating model year individuals...'') # evs @
                [Log (Info (''Created '' @ str_nat (length m) @ '' model years''))])) \<and>
             map_of m c = None)))"
    using o by (fastforce simp: dropna_unique_set)
  ultimately show ?thesis by blast
qed

end
